theory Spec2Isabelle
  imports Complex_Main "HOL-Library.Word"
begin

section \<open>Machine integers, C strings and the C library\<close>

text \<open>
  The C++ type \<open>int\<close> is a 32-bit two's complement integer: \<open>++x\<close> is \<open>x + 1\<close> on
  \<open>32 word\<close> and wraps from \<open>2147483647\<close> to \<open>-2147483648\<close> (the language leaves the
  overflow of a signed integer undefined; the compilers the repository builds with
  wrap); \<open>sint\<close> reads the signed value. A \<open>char\<close> buffer and a \<open>std::string\<close> are
  modelled by their content up to the terminating NUL, a \<open>string\<close>. A \<open>double\<close> is
  only ever copied from a parameter into a request field (or is the literal \<open>0\<close>), so
  it is modelled by \<open>real\<close>. A pointer that may be null is an \<open>option\<close>.
\<close>

type_synonym cint = "32 word"

definition INT_MAX :: int where
  "INT_MAX = 2147483647"

text \<open>\<open>isspace\<close> and \<open>isdigit\<close> of the C locale.\<close>

definition isspace :: "char \<Rightarrow> bool" where
  "isspace c =
     ((of_char c :: nat) = 32 \<or> (9 \<le> (of_char c :: nat) \<and> (of_char c :: nat) \<le> 13))"

definition isdigit :: "char \<Rightarrow> bool" where
  "isdigit c = (48 \<le> (of_char c :: nat) \<and> (of_char c :: nat) \<le> 57)"

text \<open>
  \<open>atoi\<close>: skip leading white space, read an optional sign, then accumulate decimal
  digits up to the first character that is not a digit. \<open>atoi_int\<close> is the mathematical
  value read; \<open>atoi\<close> is that value as an \<open>int\<close> (a value that does not fit an \<open>int\<close>
  is truncated to 32 bits here).
\<close>

fun atoi_digits :: "int \<Rightarrow> string \<Rightarrow> int" where
  "atoi_digits acc [] = acc"
| "atoi_digits acc (c # cs) =
     (if isdigit c then atoi_digits (acc * 10 + (int (of_char c) - 48)) cs else acc)"

definition atoi_int :: "string \<Rightarrow> int" where
  "atoi_int s =
     (case dropWhile isspace s of
        [] \<Rightarrow> 0
      | c # cs \<Rightarrow>
          if c = CHR ''-'' then - atoi_digits 0 cs
          else if c = CHR ''+'' then atoi_digits 0 cs
          else atoi_digits 0 (c # cs))"

definition atoi :: "string \<Rightarrow> cint" where
  "atoi s = word_of_int (atoi_int s)"

text \<open>
  \<open>sprintf(buf, "%012d", n)\<close>: the decimal digits of \<open>n\<close>, padded on the left with
  zeros to a field of twelve characters; the sign of a negative number takes one of the
  twelve.
\<close>

definition digit_char :: "nat \<Rightarrow> char" where
  "digit_char d = char_of (48 + d)"

fun dec :: "nat \<Rightarrow> string" where
  "dec n = (if n < 10 then [digit_char n] else dec (n div 10) @ [digit_char (n mod 10)])"

declare dec.simps [simp del]

definition pad0 :: "nat \<Rightarrow> string \<Rightarrow> string" where
  "pad0 w s = replicate (w - length s) (CHR ''0'') @ s"

definition sprintf_012d :: "int \<Rightarrow> string" where
  "sprintf_012d n =
     (if n < 0 then CHR ''-'' # pad0 11 (dec (nat (- n))) else pad0 12 (dec (nat n)))"

section \<open>Configuration and the vendor's structures\<close>

record CtpConfig =
  BrokerID :: string
  InvestorID :: string
  Password :: string
  AppID :: string
  AuthCode :: string
  TradeFrontAddress :: string
  MdFrontAddress :: string
  TradeFlowPath :: string
  MdFlowPath :: string

text \<open>The constructor \<open>CtpConfig()\<close>.\<close>

definition CtpConfig_new :: CtpConfig where
  "CtpConfig_new =
     \<lparr> BrokerID = ''9999'', InvestorID = ''000001'', Password = ''123456'',
       AppID = ''simnow_client_test'', AuthCode = ''0000000000000000'',
       TradeFrontAddress = ''tcp://180.168.146.187:10101'',
       MdFrontAddress = ''tcp://180.168.146.187:10111'',
       TradeFlowPath = ''./flow_trade/'', MdFlowPath = ''./flow_md/'' \<rparr>"

text \<open>
  The vendor header declares the flag types as \<open>char\<close> and names their values; the
  header is not part of the repository, so each flag type is the enumeration of the
  names the source uses, with one more constructor for any other value a caller may
  pass. The offset flag is a \<open>char\<close> the caller passes through.
\<close>

datatype TThostFtdcDirectionType = THOST_FTDC_D_Buy | THOST_FTDC_D_Sell | D_Other char

datatype TThostFtdcOrderPriceTypeType =
  THOST_FTDC_OPT_AnyPrice | THOST_FTDC_OPT_LimitPrice | OPT_Other char

datatype TThostFtdcContingentConditionType =
  THOST_FTDC_CC_Immediately | THOST_FTDC_CC_Touch | CC_Other char

datatype TThostFtdcTimeConditionType = THOST_FTDC_TC_IOC | THOST_FTDC_TC_GFD | TC_Other char

datatype TThostFtdcVolumeConditionType = THOST_FTDC_VC_AV | THOST_FTDC_VC_CV | VC_Other char

datatype TThostFtdcHedgeFlagType = THOST_FTDC_HF_Speculation | HF_Other char

datatype TThostFtdcForceCloseReasonType = THOST_FTDC_FCC_NotForceClose

datatype TThostFtdcActionFlagType = THOST_FTDC_AF_Delete | THOST_FTDC_AF_Modify | AF_Other char

type_synonym TThostFtdcOffsetFlagType = char

record CThostFtdcRspInfoField =
  ErrorID :: cint
  ErrorMsg :: string

record CThostFtdcRspAuthenticateField =
  rauth_BrokerID :: string
  rauth_UserID :: string
  rauth_AppID :: string

record CThostFtdcRspUserLoginField =
  TradingDay :: string
  LoginTime :: string
  FrontID :: cint
  SessionID :: cint
  MaxOrderRef :: string

record CThostFtdcUserLogoutField =
  lo_BrokerID :: string
  lo_UserID :: string

record CThostFtdcReqAuthenticateField =
  auth_BrokerID :: string
  auth_UserID :: string
  auth_AppID :: string
  auth_AuthCode :: string

record CThostFtdcReqUserLoginField =
  login_BrokerID :: string
  login_UserID :: string
  login_Password :: string

text \<open>
  The request structures are cleared with \<open>memset\<close> first; the fields listed are the
  ones some function of the source writes, and a field a function does not write keeps
  the cleared value (the empty string, \<open>0\<close>).
\<close>

record CThostFtdcInputOrderField =
  io_BrokerID :: string
  io_InvestorID :: string
  io_InstrumentID :: string
  io_ExchangeID :: string
  io_OrderRef :: string
  io_Direction :: TThostFtdcDirectionType
  io_CombOffsetFlag :: TThostFtdcOffsetFlagType
  io_CombHedgeFlag :: TThostFtdcHedgeFlagType
  io_LimitPrice :: real
  io_StopPrice :: real
  io_VolumeTotalOriginal :: cint
  io_MinVolume :: cint
  io_OrderPriceType :: TThostFtdcOrderPriceTypeType
  io_TimeCondition :: TThostFtdcTimeConditionType
  io_VolumeCondition :: TThostFtdcVolumeConditionType
  io_ContingentCondition :: TThostFtdcContingentConditionType
  io_ForceCloseReason :: TThostFtdcForceCloseReasonType
  io_IsAutoSuspend :: cint
  io_UserForceClose :: cint

record CThostFtdcInputOrderActionField =
  oa_BrokerID :: string
  oa_InvestorID :: string
  oa_InstrumentID :: string
  oa_ExchangeID :: string
  oa_OrderRef :: string
  oa_OrderSysID :: string
  oa_FrontID :: cint
  oa_SessionID :: cint
  oa_ActionFlag :: TThostFtdcActionFlagType
  oa_LimitPrice :: real
  oa_VolumeChange :: cint

section \<open>The trading session: \<open>CtpTraderSpi\<close>\<close>

text \<open>
  What the session hands to the vendor's API object \<open>m_pApi\<close>: one constructor for
  each API function the class calls, with the request structure and the request
  identifier. The queries and the password updates only copy strings into their
  request structure; theirs is the list of the fields written, by name.
\<close>

datatype trader_query =
    ReqUserPasswordUpdate_q
  | ReqTradingAccountPasswordUpdate_q
  | ReqSettlementInfoConfirm_q
  | ReqQryInstrument_q
  | ReqQryTradingAccount_q
  | ReqQryInvestorPosition_q
  | ReqQryInstrumentCommissionRate_q
  | ReqQryTrade_q
  | ReqQryOrder_q
  | ReqQryBaseCurrencyAccount_q
  | ReqQryExchangeRate_q

datatype trader_call =
    Api_ReqAuthenticate CThostFtdcReqAuthenticateField cint
  | Api_ReqUserLogin CThostFtdcReqUserLoginField cint
  | Api_ReqOrderInsert CThostFtdcInputOrderField cint
  | Api_ReqOrderAction CThostFtdcInputOrderActionField cint
  | Api_ReqQryInstrumentMarginRate "(string \<times> string) list" TThostFtdcHedgeFlagType cint
  | Api_Query trader_query "(string \<times> string) list" cint

fun call_request_id :: "trader_call \<Rightarrow> cint" where
  "call_request_id (Api_ReqAuthenticate r n) = n"
| "call_request_id (Api_ReqUserLogin r n) = n"
| "call_request_id (Api_ReqOrderInsert r n) = n"
| "call_request_id (Api_ReqOrderAction r n) = n"
| "call_request_id (Api_ReqQryInstrumentMarginRate r h n) = n"
| "call_request_id (Api_Query q r n) = n"

text \<open>
  The API object is outside the repository: its answer to a call (the \<open>int\<close> the
  \<open>Req...\<close> function returns, zero when the request was accepted for sending) is a
  parameter of the model.
\<close>

type_synonym TraderApi = "trader_call \<Rightarrow> cint"

record CtpTraderSpi =
  m_config :: CtpConfig
  m_requestId :: cint
  m_isLogin :: bool
  m_frontId :: cint
  m_sessionId :: cint
  m_maxOrderRef :: cint

definition CtpTraderSpi_new :: "CtpConfig \<Rightarrow> CtpTraderSpi" where
  "CtpTraderSpi_new config =
     \<lparr> m_config = config, m_requestId = 0, m_isLogin = False,
       m_frontId = 0, m_sessionId = 0, m_maxOrderRef = 0 \<rparr>"

text \<open>
  A method returns what it returns in C++ (for the \<open>int\<close> methods), the object after
  the call and the calls it made on the API, in order.
  \<open>m_pApi->Req...(&req, ++m_requestId)\<close> increments the counter, passes the new value
  and returns the API's answer.
\<close>

type_synonym trader_result = "cint \<times> CtpTraderSpi \<times> trader_call list"

definition api_send ::
  "TraderApi \<Rightarrow> CtpTraderSpi \<Rightarrow> (cint \<Rightarrow> trader_call) \<Rightarrow> trader_result" where
  "api_send api st mk =
     (let st' = st\<lparr>m_requestId := m_requestId st + 1\<rparr>;
          c = mk (m_requestId st')
      in (api c, st', [c]))"

definition ReqAuthenticate :: "TraderApi \<Rightarrow> CtpTraderSpi \<Rightarrow> CtpTraderSpi \<times> trader_call list" where
  "ReqAuthenticate api st =
     (let req = \<lparr> auth_BrokerID = BrokerID (m_config st),
                   auth_UserID = InvestorID (m_config st),
                   auth_AppID = AppID (m_config st),
                   auth_AuthCode = AuthCode (m_config st) \<rparr>
      in snd (api_send api st (Api_ReqAuthenticate req)))"

definition OnFrontConnected :: "TraderApi \<Rightarrow> CtpTraderSpi \<Rightarrow> CtpTraderSpi \<times> trader_call list" where
  "OnFrontConnected api st = ReqAuthenticate api st"

definition OnFrontDisconnected :: "cint \<Rightarrow> CtpTraderSpi \<Rightarrow> CtpTraderSpi \<times> trader_call list" where
  "OnFrontDisconnected nReason st = (st\<lparr>m_isLogin := False\<rparr>, [])"

definition OnHeartBeatWarning :: "cint \<Rightarrow> CtpTraderSpi \<Rightarrow> CtpTraderSpi \<times> trader_call list" where
  "OnHeartBeatWarning nTimeLapse st = (st, [])"

text \<open>
  \<open>OnRspAuthenticate\<close> prints the error when there is one and goes on: the login
  request is built and sent on every path.
\<close>

definition OnRspAuthenticate ::
  "TraderApi \<Rightarrow> CThostFtdcRspAuthenticateField option \<Rightarrow> CThostFtdcRspInfoField option \<Rightarrow>
   cint \<Rightarrow> bool \<Rightarrow> CtpTraderSpi \<Rightarrow> CtpTraderSpi \<times> trader_call list" where
  "OnRspAuthenticate api pRspAuthenticateField pRspInfo nRequestID bIsLast st =
     (let req = \<lparr> login_BrokerID = BrokerID (m_config st),
                   login_UserID = InvestorID (m_config st),
                   login_Password = Password (m_config st) \<rparr>
      in snd (api_send api st (Api_ReqUserLogin req)))"

text \<open>
  \<open>OnRspUserLogin\<close> returns early on an error; otherwise it reads the login record
  without testing the pointer, which is a crash when the pointer is null. A crash is
  where defined behaviour ends (the read through a null pointer here, a \<open>strcpy\<close> past
  the end of its destination in the market-data session); what the program does after
  it is not modelled.
\<close>

datatype crash = NullPointerDereference | BufferOverrun

definition rsp_failed :: "CThostFtdcRspInfoField option \<Rightarrow> bool" where
  "rsp_failed pRspInfo = (case pRspInfo of None \<Rightarrow> False | Some i \<Rightarrow> ErrorID i \<noteq> 0)"

definition OnRspUserLogin ::
  "CThostFtdcRspUserLoginField option \<Rightarrow> CThostFtdcRspInfoField option \<Rightarrow>
   cint \<Rightarrow> bool \<Rightarrow> CtpTraderSpi \<Rightarrow> crash + CtpTraderSpi \<times> trader_call list" where
  "OnRspUserLogin pRspUserLogin pRspInfo nRequestID bIsLast st =
     (if rsp_failed pRspInfo then Inr (st, [])
      else case pRspUserLogin of
             None \<Rightarrow> Inl NullPointerDereference
           | Some r \<Rightarrow>
               Inr (st\<lparr> m_frontId := FrontID r, m_sessionId := SessionID r,
                         m_maxOrderRef := atoi (MaxOrderRef r), m_isLogin := True \<rparr>, []))"

definition OnRspUserLogout ::
  "CThostFtdcUserLogoutField option \<Rightarrow> CThostFtdcRspInfoField option \<Rightarrow>
   cint \<Rightarrow> bool \<Rightarrow> CtpTraderSpi \<Rightarrow> CtpTraderSpi \<times> trader_call list" where
  "OnRspUserLogout pUserLogout pRspInfo nRequestID bIsLast st = (st\<lparr>m_isLogin := False\<rparr>, [])"

subsection \<open>Orders\<close>

definition ReqOrderInsert ::
  "TraderApi \<Rightarrow> string \<Rightarrow> string \<Rightarrow> TThostFtdcDirectionType \<Rightarrow> TThostFtdcOffsetFlagType \<Rightarrow>
   real \<Rightarrow> cint \<Rightarrow> TThostFtdcOrderPriceTypeType \<Rightarrow> TThostFtdcContingentConditionType \<Rightarrow>
   TThostFtdcTimeConditionType \<Rightarrow> TThostFtdcVolumeConditionType \<Rightarrow> TThostFtdcHedgeFlagType \<Rightarrow>
   CtpTraderSpi \<Rightarrow> trader_result" where
  "ReqOrderInsert api instrumentID exchangeID direction offsetFlag price volume
       priceType contingentCondition timeCondition volumeCondition hedgeFlag st =
     (let st1 = st\<lparr>m_maxOrderRef := m_maxOrderRef st + 1\<rparr>;
          orderRef = sprintf_012d (sint (m_maxOrderRef st1));
          req = \<lparr> io_BrokerID = BrokerID (m_config st1),
                  io_InvestorID = InvestorID (m_config st1),
                  io_InstrumentID = instrumentID,
                  io_ExchangeID = exchangeID,
                  io_OrderRef = orderRef,
                  io_Direction = direction,
                  io_CombOffsetFlag = offsetFlag,
                  io_CombHedgeFlag = hedgeFlag,
                  io_LimitPrice = price,
                  io_StopPrice = 0,
                  io_VolumeTotalOriginal = volume,
                  io_MinVolume = 1,
                  io_OrderPriceType = priceType,
                  io_TimeCondition = timeCondition,
                  io_VolumeCondition = volumeCondition,
                  io_ContingentCondition = contingentCondition,
                  io_ForceCloseReason = THOST_FTDC_FCC_NotForceClose,
                  io_IsAutoSuspend = 0,
                  io_UserForceClose = 0 \<rparr>
      in api_send api st1 (Api_ReqOrderInsert req))"

text \<open>The presets. A parameter left out takes the default of \<open>ReqOrderInsert\<close>'s declaration.\<close>

definition ReqLimitOrder ::
  "TraderApi \<Rightarrow> string \<Rightarrow> string \<Rightarrow> TThostFtdcDirectionType \<Rightarrow> TThostFtdcOffsetFlagType \<Rightarrow>
   real \<Rightarrow> cint \<Rightarrow> CtpTraderSpi \<Rightarrow> trader_result" where
  "ReqLimitOrder api instrumentID exchangeID direction offsetFlag price volume st =
     ReqOrderInsert api instrumentID exchangeID direction offsetFlag price volume
       THOST_FTDC_OPT_LimitPrice THOST_FTDC_CC_Immediately THOST_FTDC_TC_GFD THOST_FTDC_VC_AV
       THOST_FTDC_HF_Speculation st"

definition ReqMarketOrder ::
  "TraderApi \<Rightarrow> string \<Rightarrow> string \<Rightarrow> TThostFtdcDirectionType \<Rightarrow> TThostFtdcOffsetFlagType \<Rightarrow>
   cint \<Rightarrow> CtpTraderSpi \<Rightarrow> trader_result" where
  "ReqMarketOrder api instrumentID exchangeID direction offsetFlag volume st =
     ReqOrderInsert api instrumentID exchangeID direction offsetFlag 0 volume
       THOST_FTDC_OPT_AnyPrice THOST_FTDC_CC_Immediately THOST_FTDC_TC_GFD THOST_FTDC_VC_AV
       THOST_FTDC_HF_Speculation st"

definition ReqFOKOrder ::
  "TraderApi \<Rightarrow> string \<Rightarrow> string \<Rightarrow> TThostFtdcDirectionType \<Rightarrow> TThostFtdcOffsetFlagType \<Rightarrow>
   real \<Rightarrow> cint \<Rightarrow> CtpTraderSpi \<Rightarrow> trader_result" where
  "ReqFOKOrder api instrumentID exchangeID direction offsetFlag price volume st =
     ReqOrderInsert api instrumentID exchangeID direction offsetFlag price volume
       THOST_FTDC_OPT_LimitPrice THOST_FTDC_CC_Immediately THOST_FTDC_TC_IOC THOST_FTDC_VC_CV
       THOST_FTDC_HF_Speculation st"

definition ReqFAKOrder ::
  "TraderApi \<Rightarrow> string \<Rightarrow> string \<Rightarrow> TThostFtdcDirectionType \<Rightarrow> TThostFtdcOffsetFlagType \<Rightarrow>
   real \<Rightarrow> cint \<Rightarrow> CtpTraderSpi \<Rightarrow> trader_result" where
  "ReqFAKOrder api instrumentID exchangeID direction offsetFlag price volume st =
     ReqOrderInsert api instrumentID exchangeID direction offsetFlag price volume
       THOST_FTDC_OPT_LimitPrice THOST_FTDC_CC_Immediately THOST_FTDC_TC_IOC THOST_FTDC_VC_AV
       THOST_FTDC_HF_Speculation st"

text \<open>\<open>ReqStopOrder\<close> does not call \<open>ReqOrderInsert\<close>: it fills a request of its own.\<close>

definition ReqStopOrder ::
  "TraderApi \<Rightarrow> string \<Rightarrow> string \<Rightarrow> TThostFtdcDirectionType \<Rightarrow> TThostFtdcOffsetFlagType \<Rightarrow>
   real \<Rightarrow> real \<Rightarrow> cint \<Rightarrow> CtpTraderSpi \<Rightarrow> trader_result" where
  "ReqStopOrder api instrumentID exchangeID direction offsetFlag price stopPrice volume st =
     (let st1 = st\<lparr>m_maxOrderRef := m_maxOrderRef st + 1\<rparr>;
          orderRef = sprintf_012d (sint (m_maxOrderRef st1));
          req = \<lparr> io_BrokerID = BrokerID (m_config st1),
                  io_InvestorID = InvestorID (m_config st1),
                  io_InstrumentID = instrumentID,
                  io_ExchangeID = exchangeID,
                  io_OrderRef = orderRef,
                  io_Direction = direction,
                  io_CombOffsetFlag = offsetFlag,
                  io_CombHedgeFlag = THOST_FTDC_HF_Speculation,
                  io_LimitPrice = price,
                  io_StopPrice = stopPrice,
                  io_VolumeTotalOriginal = volume,
                  io_MinVolume = 1,
                  io_OrderPriceType = THOST_FTDC_OPT_LimitPrice,
                  io_TimeCondition = THOST_FTDC_TC_GFD,
                  io_VolumeCondition = THOST_FTDC_VC_AV,
                  io_ContingentCondition = THOST_FTDC_CC_Touch,
                  io_ForceCloseReason = THOST_FTDC_FCC_NotForceClose,
                  io_IsAutoSuspend = 0,
                  io_UserForceClose = 0 \<rparr>
      in api_send api st1 (Api_ReqOrderInsert req))"

subsection \<open>Order actions\<close>

definition ReqOrderAction ::
  "TraderApi \<Rightarrow> string \<Rightarrow> string \<Rightarrow> string \<Rightarrow> cint \<Rightarrow> cint \<Rightarrow> TThostFtdcActionFlagType \<Rightarrow>
   CtpTraderSpi \<Rightarrow> trader_result" where
  "ReqOrderAction api instrumentID exchangeID orderRef frontId sessionId actionFlag st =
     (let req = \<lparr> oa_BrokerID = BrokerID (m_config st),
                  oa_InvestorID = InvestorID (m_config st),
                  oa_InstrumentID = instrumentID,
                  oa_ExchangeID = exchangeID,
                  oa_OrderRef = orderRef,
                  oa_OrderSysID = [],
                  oa_FrontID = frontId,
                  oa_SessionID = sessionId,
                  oa_ActionFlag = actionFlag,
                  oa_LimitPrice = 0,
                  oa_VolumeChange = 0 \<rparr>
      in api_send api st (Api_ReqOrderAction req))"

definition ReqOrderActionByOrderSysID ::
  "TraderApi \<Rightarrow> string \<Rightarrow> string \<Rightarrow> TThostFtdcActionFlagType \<Rightarrow> CtpTraderSpi \<Rightarrow> trader_result" where
  "ReqOrderActionByOrderSysID api orderSysID exchangeID actionFlag st =
     (let req = \<lparr> oa_BrokerID = BrokerID (m_config st),
                  oa_InvestorID = InvestorID (m_config st),
                  oa_InstrumentID = [],
                  oa_ExchangeID = exchangeID,
                  oa_OrderRef = [],
                  oa_OrderSysID = orderSysID,
                  oa_FrontID = 0,
                  oa_SessionID = 0,
                  oa_ActionFlag = actionFlag,
                  oa_LimitPrice = 0,
                  oa_VolumeChange = 0 \<rparr>
      in api_send api st (Api_ReqOrderAction req))"

definition ReqOrderModify ::
  "TraderApi \<Rightarrow> string \<Rightarrow> string \<Rightarrow> string \<Rightarrow> cint \<Rightarrow> cint \<Rightarrow> real \<Rightarrow> cint \<Rightarrow>
   CtpTraderSpi \<Rightarrow> trader_result" where
  "ReqOrderModify api instrumentID exchangeID orderRef frontId sessionId newPrice newVolume st =
     (let req = \<lparr> oa_BrokerID = BrokerID (m_config st),
                  oa_InvestorID = InvestorID (m_config st),
                  oa_InstrumentID = instrumentID,
                  oa_ExchangeID = exchangeID,
                  oa_OrderRef = orderRef,
                  oa_OrderSysID = [],
                  oa_FrontID = frontId,
                  oa_SessionID = sessionId,
                  oa_ActionFlag = THOST_FTDC_AF_Modify,
                  oa_LimitPrice = newPrice,
                  oa_VolumeChange = newVolume \<rparr>
      in api_send api st (Api_ReqOrderAction req))"

subsection \<open>Queries and password updates\<close>

text \<open>
  \<open>if (!s.empty()) strcpy(req.Field, s.c_str())\<close>: an empty parameter leaves the
  field cleared.
\<close>

definition copy_if_set :: "string \<Rightarrow> string" where
  "copy_if_set s = (if s \<noteq> [] then s else [])"

definition ReqUserPasswordUpdate :: "TraderApi \<Rightarrow> string \<Rightarrow> string \<Rightarrow> CtpTraderSpi \<Rightarrow> trader_result" where
  "ReqUserPasswordUpdate api oldPassword newPassword st =
     api_send api st (Api_Query ReqUserPasswordUpdate_q
       [(''BrokerID'', BrokerID (m_config st)), (''UserID'', InvestorID (m_config st)),
        (''OldPassword'', oldPassword), (''NewPassword'', newPassword)])"

definition ReqTradingAccountPasswordUpdate ::
  "TraderApi \<Rightarrow> string \<Rightarrow> string \<Rightarrow> string \<Rightarrow> string \<Rightarrow> CtpTraderSpi \<Rightarrow> trader_result" where
  "ReqTradingAccountPasswordUpdate api accountID oldPassword newPassword currencyID st =
     api_send api st (Api_Query ReqTradingAccountPasswordUpdate_q
       [(''BrokerID'', BrokerID (m_config st)), (''AccountID'', accountID),
        (''OldPassword'', oldPassword), (''NewPassword'', newPassword),
        (''CurrencyID'', currencyID)])"

definition ReqSettlementInfoConfirm :: "TraderApi \<Rightarrow> CtpTraderSpi \<Rightarrow> trader_result" where
  "ReqSettlementInfoConfirm api st =
     api_send api st (Api_Query ReqSettlementInfoConfirm_q
       [(''BrokerID'', BrokerID (m_config st)), (''InvestorID'', InvestorID (m_config st))])"

definition ReqQryInstrument :: "TraderApi \<Rightarrow> string \<Rightarrow> string \<Rightarrow> CtpTraderSpi \<Rightarrow> trader_result" where
  "ReqQryInstrument api instrumentID exchangeID st =
     api_send api st (Api_Query ReqQryInstrument_q
       [(''InstrumentID'', copy_if_set instrumentID), (''ExchangeID'', copy_if_set exchangeID)])"

definition ReqQryTradingAccount :: "TraderApi \<Rightarrow> string \<Rightarrow> CtpTraderSpi \<Rightarrow> trader_result" where
  "ReqQryTradingAccount api currencyID st =
     api_send api st (Api_Query ReqQryTradingAccount_q
       [(''BrokerID'', BrokerID (m_config st)), (''InvestorID'', InvestorID (m_config st)),
        (''CurrencyID'', copy_if_set currencyID)])"

definition ReqQryInvestorPosition :: "TraderApi \<Rightarrow> string \<Rightarrow> string \<Rightarrow> CtpTraderSpi \<Rightarrow> trader_result" where
  "ReqQryInvestorPosition api instrumentID exchangeID st =
     api_send api st (Api_Query ReqQryInvestorPosition_q
       [(''BrokerID'', BrokerID (m_config st)), (''InvestorID'', InvestorID (m_config st)),
        (''InstrumentID'', copy_if_set instrumentID), (''ExchangeID'', copy_if_set exchangeID)])"

definition ReqQryInstrumentMarginRate ::
  "TraderApi \<Rightarrow> string \<Rightarrow> TThostFtdcHedgeFlagType \<Rightarrow> CtpTraderSpi \<Rightarrow> trader_result" where
  "ReqQryInstrumentMarginRate api instrumentID hedgeFlag st =
     api_send api st (Api_ReqQryInstrumentMarginRate
       [(''BrokerID'', BrokerID (m_config st)), (''InvestorID'', InvestorID (m_config st)),
        (''InstrumentID'', instrumentID)] hedgeFlag)"

definition ReqQryInstrumentCommissionRate :: "TraderApi \<Rightarrow> string \<Rightarrow> CtpTraderSpi \<Rightarrow> trader_result" where
  "ReqQryInstrumentCommissionRate api instrumentID st =
     api_send api st (Api_Query ReqQryInstrumentCommissionRate_q
       [(''BrokerID'', BrokerID (m_config st)), (''InvestorID'', InvestorID (m_config st)),
        (''InstrumentID'', instrumentID)])"

definition ReqQryTrade :: "TraderApi \<Rightarrow> string \<Rightarrow> string \<Rightarrow> CtpTraderSpi \<Rightarrow> trader_result" where
  "ReqQryTrade api instrumentID exchangeID st =
     api_send api st (Api_Query ReqQryTrade_q
       [(''BrokerID'', BrokerID (m_config st)), (''InvestorID'', InvestorID (m_config st)),
        (''InstrumentID'', copy_if_set instrumentID), (''ExchangeID'', copy_if_set exchangeID)])"

definition ReqQryOrder :: "TraderApi \<Rightarrow> string \<Rightarrow> string \<Rightarrow> CtpTraderSpi \<Rightarrow> trader_result" where
  "ReqQryOrder api instrumentID exchangeID st =
     api_send api st (Api_Query ReqQryOrder_q
       [(''BrokerID'', BrokerID (m_config st)), (''InvestorID'', InvestorID (m_config st)),
        (''InstrumentID'', copy_if_set instrumentID), (''ExchangeID'', copy_if_set exchangeID)])"

definition ReqQryBaseCurrencyAccount :: "TraderApi \<Rightarrow> CtpTraderSpi \<Rightarrow> trader_result" where
  "ReqQryBaseCurrencyAccount api st =
     api_send api st (Api_Query ReqQryBaseCurrencyAccount_q
       [(''BrokerID'', BrokerID (m_config st)), (''AccountID'', InvestorID (m_config st))])"

definition ReqQryExchangeRate :: "TraderApi \<Rightarrow> string \<Rightarrow> string \<Rightarrow> CtpTraderSpi \<Rightarrow> trader_result" where
  "ReqQryExchangeRate api fromCurrency toCurrency st =
     api_send api st (Api_Query ReqQryExchangeRate_q
       [(''BrokerID'', BrokerID (m_config st)),
        (''FromCurrencyID'', copy_if_set fromCurrency), (''ToCurrencyID'', copy_if_set toCurrency)])"

subsection \<open>Histories of a trading session\<close>

text \<open>
  Everything that reads or writes a member of \<open>CtpTraderSpi\<close> or calls the API: the
  callbacks the transport delivers and the methods a caller invokes. The response
  callbacks left out (\<open>OnRspQry...\<close>, \<open>OnRspOrderInsert\<close>, \<open>OnRtnOrder\<close>,
  \<open>OnRtnTrade\<close>, \<open>OnRspOrderAction\<close>, \<open>OnErrRtn...\<close>, \<open>OnRspError\<close>) only print.
\<close>

datatype trader_event =
    Ev_OnFrontConnected
  | Ev_OnFrontDisconnected cint
  | Ev_OnHeartBeatWarning cint
  | Ev_OnRspAuthenticate "CThostFtdcRspAuthenticateField option" "CThostFtdcRspInfoField option" cint bool
  | Ev_OnRspUserLogin "CThostFtdcRspUserLoginField option" "CThostFtdcRspInfoField option" cint bool
  | Ev_OnRspUserLogout "CThostFtdcUserLogoutField option" "CThostFtdcRspInfoField option" cint bool
  | Ev_ReqUserPasswordUpdate string string
  | Ev_ReqTradingAccountPasswordUpdate string string string string
  | Ev_ReqSettlementInfoConfirm
  | Ev_ReqQryInstrument string string
  | Ev_ReqQryTradingAccount string
  | Ev_ReqQryInvestorPosition string string
  | Ev_ReqQryInstrumentMarginRate string TThostFtdcHedgeFlagType
  | Ev_ReqQryInstrumentCommissionRate string
  | Ev_ReqQryTrade string string
  | Ev_ReqQryOrder string string
  | Ev_ReqQryBaseCurrencyAccount
  | Ev_ReqQryExchangeRate string string
  | Ev_ReqOrderInsert string string TThostFtdcDirectionType TThostFtdcOffsetFlagType real cint
      TThostFtdcOrderPriceTypeType TThostFtdcContingentConditionType
      TThostFtdcTimeConditionType TThostFtdcVolumeConditionType TThostFtdcHedgeFlagType
  | Ev_ReqLimitOrder string string TThostFtdcDirectionType TThostFtdcOffsetFlagType real cint
  | Ev_ReqMarketOrder string string TThostFtdcDirectionType TThostFtdcOffsetFlagType cint
  | Ev_ReqFOKOrder string string TThostFtdcDirectionType TThostFtdcOffsetFlagType real cint
  | Ev_ReqFAKOrder string string TThostFtdcDirectionType TThostFtdcOffsetFlagType real cint
  | Ev_ReqStopOrder string string TThostFtdcDirectionType TThostFtdcOffsetFlagType real real cint
  | Ev_ReqOrderAction string string string cint cint TThostFtdcActionFlagType
  | Ev_ReqOrderActionByOrderSysID string string TThostFtdcActionFlagType
  | Ev_ReqOrderModify string string string cint cint real cint

fun trader_step ::
  "TraderApi \<Rightarrow> trader_event \<Rightarrow> CtpTraderSpi \<Rightarrow> crash + CtpTraderSpi \<times> trader_call list" where
  "trader_step api Ev_OnFrontConnected st = Inr (OnFrontConnected api st)"
| "trader_step api (Ev_OnFrontDisconnected r) st = Inr (OnFrontDisconnected r st)"
| "trader_step api (Ev_OnHeartBeatWarning t) st = Inr (OnHeartBeatWarning t st)"
| "trader_step api (Ev_OnRspAuthenticate p i n l) st = Inr (OnRspAuthenticate api p i n l st)"
| "trader_step api (Ev_OnRspUserLogin p i n l) st = OnRspUserLogin p i n l st"
| "trader_step api (Ev_OnRspUserLogout p i n l) st = Inr (OnRspUserLogout p i n l st)"
| "trader_step api (Ev_ReqUserPasswordUpdate a b) st = Inr (snd (ReqUserPasswordUpdate api a b st))"
| "trader_step api (Ev_ReqTradingAccountPasswordUpdate a b c d) st =
     Inr (snd (ReqTradingAccountPasswordUpdate api a b c d st))"
| "trader_step api Ev_ReqSettlementInfoConfirm st = Inr (snd (ReqSettlementInfoConfirm api st))"
| "trader_step api (Ev_ReqQryInstrument a b) st = Inr (snd (ReqQryInstrument api a b st))"
| "trader_step api (Ev_ReqQryTradingAccount a) st = Inr (snd (ReqQryTradingAccount api a st))"
| "trader_step api (Ev_ReqQryInvestorPosition a b) st = Inr (snd (ReqQryInvestorPosition api a b st))"
| "trader_step api (Ev_ReqQryInstrumentMarginRate a h) st =
     Inr (snd (ReqQryInstrumentMarginRate api a h st))"
| "trader_step api (Ev_ReqQryInstrumentCommissionRate a) st =
     Inr (snd (ReqQryInstrumentCommissionRate api a st))"
| "trader_step api (Ev_ReqQryTrade a b) st = Inr (snd (ReqQryTrade api a b st))"
| "trader_step api (Ev_ReqQryOrder a b) st = Inr (snd (ReqQryOrder api a b st))"
| "trader_step api Ev_ReqQryBaseCurrencyAccount st = Inr (snd (ReqQryBaseCurrencyAccount api st))"
| "trader_step api (Ev_ReqQryExchangeRate a b) st = Inr (snd (ReqQryExchangeRate api a b st))"
| "trader_step api (Ev_ReqOrderInsert i e d off p v pt cc tc vc hf) st =
     Inr (snd (ReqOrderInsert api i e d off p v pt cc tc vc hf st))"
| "trader_step api (Ev_ReqLimitOrder i e d off p v) st = Inr (snd (ReqLimitOrder api i e d off p v st))"
| "trader_step api (Ev_ReqMarketOrder i e d off v) st = Inr (snd (ReqMarketOrder api i e d off v st))"
| "trader_step api (Ev_ReqFOKOrder i e d off p v) st = Inr (snd (ReqFOKOrder api i e d off p v st))"
| "trader_step api (Ev_ReqFAKOrder i e d off p v) st = Inr (snd (ReqFAKOrder api i e d off p v st))"
| "trader_step api (Ev_ReqStopOrder i e d off p sp v) st =
     Inr (snd (ReqStopOrder api i e d off p sp v st))"
| "trader_step api (Ev_ReqOrderAction i e r f s a) st = Inr (snd (ReqOrderAction api i e r f s a st))"
| "trader_step api (Ev_ReqOrderActionByOrderSysID osid e a) st =
     Inr (snd (ReqOrderActionByOrderSysID api osid e a st))"
| "trader_step api (Ev_ReqOrderModify i e r f s p v) st =
     Inr (snd (ReqOrderModify api i e r f s p v st))"

text \<open>
  A history runs event by event and ends at a crash. \<open>trader_run\<close> gives the object
  at the end (\<open>None\<close> after a crash) and every call made on the API, in order.
\<close>

fun trader_run ::
  "TraderApi \<Rightarrow> trader_event list \<Rightarrow> CtpTraderSpi \<Rightarrow> CtpTraderSpi option \<times> trader_call list" where
  "trader_run api [] st = (Some st, [])"
| "trader_run api (e # es) st =
     (case trader_step api e st of
        Inl c \<Rightarrow> (None, [])
      | Inr (st', calls) \<Rightarrow>
          (case trader_run api es st' of (fin, calls') \<Rightarrow> (fin, calls @ calls')))"

text \<open>The order references and the request identifiers a history put on the wire.\<close>

fun order_refs :: "trader_call list \<Rightarrow> string list" where
  "order_refs [] = []"
| "order_refs (Api_ReqOrderInsert r n # cs) = io_OrderRef r # order_refs cs"
| "order_refs (c # cs) = order_refs cs"

definition request_ids :: "trader_call list \<Rightarrow> int list" where
  "request_ids cs = map (\<lambda>c. sint (call_request_id c)) cs"

fun is_insert :: "trader_event \<Rightarrow> bool" where
  "is_insert (Ev_ReqOrderInsert i e d off p v pt cc tc vc hf) = True"
| "is_insert (Ev_ReqLimitOrder i e d off p v) = True"
| "is_insert (Ev_ReqMarketOrder i e d off v) = True"
| "is_insert (Ev_ReqFOKOrder i e d off p v) = True"
| "is_insert (Ev_ReqFAKOrder i e d off p v) = True"
| "is_insert (Ev_ReqStopOrder i e d off p sp v) = True"
| "is_insert e = False"

text \<open>A login response opens a session; a history within one session has none.\<close>

fun is_login_response :: "trader_event \<Rightarrow> bool" where
  "is_login_response (Ev_OnRspUserLogin p i n l) = True"
| "is_login_response e = False"

section \<open>The market-data session: \<open>CtpMdSpi\<close>\<close>

record CThostFtdcSpecificInstrumentField =
  si_InstrumentID :: string
  si_ExchangeID :: string

datatype md_call =
    MdApi_ReqUserLogin CThostFtdcReqUserLoginField cint
  | MdApi_SubscribeMarketData "CThostFtdcSpecificInstrumentField list" cint

type_synonym MdApi = "md_call \<Rightarrow> cint"

text \<open>
  The members \<open>m_config\<close>, \<open>m_requestId\<close> and \<open>m_isLogin\<close> of \<open>CtpMdSpi\<close>; the class
  has no other state (the mutex apart), and none that holds instruments.
\<close>

record CtpMdSpi =
  md_config :: CtpConfig
  md_requestId :: cint
  md_isLogin :: bool

definition CtpMdSpi_new :: "CtpConfig \<Rightarrow> CtpMdSpi" where
  "CtpMdSpi_new config = \<lparr> md_config = config, md_requestId = 0, md_isLogin = False \<rparr>"

definition Md_OnFrontConnected :: "MdApi \<Rightarrow> CtpMdSpi \<Rightarrow> CtpMdSpi \<times> md_call list" where
  "Md_OnFrontConnected api st =
     (let req = \<lparr> login_BrokerID = BrokerID (md_config st),
                   login_UserID = InvestorID (md_config st),
                   login_Password = Password (md_config st) \<rparr>;
          st' = st\<lparr>md_requestId := md_requestId st + 1\<rparr>
      in (st', [MdApi_ReqUserLogin req (md_requestId st')]))"

definition Md_OnFrontDisconnected :: "cint \<Rightarrow> CtpMdSpi \<Rightarrow> CtpMdSpi \<times> md_call list" where
  "Md_OnFrontDisconnected nReason st = (st\<lparr>md_isLogin := False\<rparr>, [])"

definition Md_OnRspUserLogin ::
  "CThostFtdcRspUserLoginField option \<Rightarrow> CThostFtdcRspInfoField option \<Rightarrow>
   cint \<Rightarrow> bool \<Rightarrow> CtpMdSpi \<Rightarrow> crash + CtpMdSpi \<times> md_call list" where
  "Md_OnRspUserLogin pRspUserLogin pRspInfo nRequestID bIsLast st =
     (if rsp_failed pRspInfo then Inr (st, [])
      else case pRspUserLogin of
             None \<Rightarrow> Inl NullPointerDereference
           | Some r \<Rightarrow> Inr (st\<lparr>md_isLogin := True\<rparr>, []))"

definition Md_OnRspUserLogout ::
  "CThostFtdcUserLogoutField option \<Rightarrow> CThostFtdcRspInfoField option \<Rightarrow>
   cint \<Rightarrow> bool \<Rightarrow> CtpMdSpi \<Rightarrow> CtpMdSpi \<times> md_call list" where
  "Md_OnRspUserLogout pUserLogout pRspInfo nRequestID bIsLast st = (st\<lparr>md_isLogin := False\<rparr>, [])"

text \<open>
  The fields \<open>InstrumentID\<close> and \<open>ExchangeID\<close> of
  \<open>CThostFtdcSpecificInstrumentField\<close> are \<open>char\<close> arrays whose sizes the vendor header
  declares; the header is not part of the repository, so the two sizes are a parameter.
  \<open>strcpy(dst, src)\<close> writes the characters of \<open>src\<close> and the terminating NUL without
  looking at the size of \<open>dst\<close>: it stays inside \<open>dst\<close> exactly when \<open>src\<close> is shorter than
  the array.
\<close>

record field_sizes =
  size_InstrumentID :: nat
  size_ExchangeID :: nat

definition strcpy_fits :: "nat \<Rightarrow> string \<Rightarrow> bool" where
  "strcpy_fits size_dst src = (length src < size_dst)"

text \<open>
  The loop of \<open>SubscribeMarketData\<close>: each entry is cleared, then the instrument's name
  and the exchange \<open>"CME"\<close> are copied in with \<open>strcpy\<close>.
\<close>

fun fill_instArray ::
  "field_sizes \<Rightarrow> string list \<Rightarrow> crash + CThostFtdcSpecificInstrumentField list" where
  "fill_instArray sz [] = Inr []"
| "fill_instArray sz (i # rest) =
     (if strcpy_fits (size_InstrumentID sz) i \<and> strcpy_fits (size_ExchangeID sz) ''CME''
      then case fill_instArray sz rest of
             Inl c \<Rightarrow> Inl c
           | Inr a \<Rightarrow> Inr (\<lparr> si_InstrumentID = i, si_ExchangeID = ''CME'' \<rparr> # a)
      else Inl BufferOverrun)"

text \<open>
  \<open>SubscribeMarketData\<close>: \<open>-1\<close> and nothing else when not logged in. Otherwise
  \<open>count\<close> is the vector's size as an \<open>int\<close>, the loop fills \<open>count\<close> entries, and the
  array goes to the API in one call. The request identifier is not used. The class
  has no method that unsubscribes.
\<close>

definition SubscribeMarketData ::
  "field_sizes \<Rightarrow> MdApi \<Rightarrow> string list \<Rightarrow> CtpMdSpi \<Rightarrow>
   crash + cint \<times> CtpMdSpi \<times> md_call list" where
  "SubscribeMarketData sz api instruments st =
     (if \<not> md_isLogin st then Inr (- 1, st, [])
      else
        let count = (word_of_nat (length instruments) :: cint)
        in case fill_instArray sz (take (nat (sint count)) instruments) of
             Inl c \<Rightarrow> Inl c
           | Inr instArray \<Rightarrow>
               Inr (api (MdApi_SubscribeMarketData instArray count), st,
                    [MdApi_SubscribeMarketData instArray count]))"

datatype md_event =
    MdEv_OnFrontConnected
  | MdEv_OnFrontDisconnected cint
  | MdEv_OnRspUserLogin "CThostFtdcRspUserLoginField option" "CThostFtdcRspInfoField option" cint bool
  | MdEv_OnRspUserLogout "CThostFtdcUserLogoutField option" "CThostFtdcRspInfoField option" cint bool
  | MdEv_SubscribeMarketData "string list"

fun md_step ::
  "field_sizes \<Rightarrow> MdApi \<Rightarrow> md_event \<Rightarrow> CtpMdSpi \<Rightarrow> crash + CtpMdSpi \<times> md_call list" where
  "md_step sz api MdEv_OnFrontConnected st = Inr (Md_OnFrontConnected api st)"
| "md_step sz api (MdEv_OnFrontDisconnected r) st = Inr (Md_OnFrontDisconnected r st)"
| "md_step sz api (MdEv_OnRspUserLogin p i n l) st = Md_OnRspUserLogin p i n l st"
| "md_step sz api (MdEv_OnRspUserLogout p i n l) st = Inr (Md_OnRspUserLogout p i n l st)"
| "md_step sz api (MdEv_SubscribeMarketData ins) st =
     (case SubscribeMarketData sz api ins st of
        Inl c \<Rightarrow> Inl c
      | Inr r \<Rightarrow> Inr (snd r))"

fun md_run ::
  "field_sizes \<Rightarrow> MdApi \<Rightarrow> md_event list \<Rightarrow> CtpMdSpi \<Rightarrow> CtpMdSpi option \<times> md_call list" where
  "md_run sz api [] st = (Some st, [])"
| "md_run sz api (e # es) st =
     (case md_step sz api e st of
        Inl c \<Rightarrow> (None, [])
      | Inr (st', calls) \<Rightarrow>
          (case md_run sz api es st' of (fin, calls') \<Rightarrow> (fin, calls @ calls')))"

text \<open>Of the calls of the market-data session only the login carries a request identifier.\<close>

fun md_request_ids :: "md_call list \<Rightarrow> int list" where
  "md_request_ids [] = []"
| "md_request_ids (MdApi_ReqUserLogin r n # cs) = sint n # md_request_ids cs"
| "md_request_ids (c # cs) = md_request_ids cs"

subsection \<open>The C shim's subscribe functions\<close>

text \<open>
  \<open>MdSubscribeMarketData\<close> and \<open>MdUnSubscribeMarketData\<close> of the C shim take the
  wrapper (null, or a wrapper whose API pointer may be null), the array of instrument
  names (null or not) and a count, and pass array and count on when all are there.
\<close>

datatype shim_md_call =
    Shim_SubscribeMarketData "string list" cint
  | Shim_UnSubscribeMarketData "string list" cint

type_synonym MdApiWrapper = "(shim_md_call \<Rightarrow> cint) option"

definition MdSubscribeMarketData ::
  "MdApiWrapper option \<Rightarrow> string list option \<Rightarrow> cint \<Rightarrow> cint \<times> shim_md_call list" where
  "MdSubscribeMarketData api instrument_ids count =
     (case (api, instrument_ids) of
        (Some wrapper, Some ids) \<Rightarrow>
          if 0 < sint count then
            (case wrapper of
               Some a \<Rightarrow> (a (Shim_SubscribeMarketData ids count), [Shim_SubscribeMarketData ids count])
             | None \<Rightarrow> (- 1, []))
          else (- 1, [])
      | _ \<Rightarrow> (- 1, []))"

definition MdUnSubscribeMarketData ::
  "MdApiWrapper option \<Rightarrow> string list option \<Rightarrow> cint \<Rightarrow> cint \<times> shim_md_call list" where
  "MdUnSubscribeMarketData api instrument_ids count =
     (case (api, instrument_ids) of
        (Some wrapper, Some ids) \<Rightarrow>
          if 0 < sint count then
            (case wrapper of
               Some a \<Rightarrow> (a (Shim_UnSubscribeMarketData ids count), [Shim_UnSubscribeMarketData ids count])
             | None \<Rightarrow> (- 1, []))
          else (- 1, [])
      | _ \<Rightarrow> (- 1, []))"

section \<open>The C shim: \<open>TraderSpiWrapper\<close> and \<open>MdSpiWrapper\<close>\<close>

text \<open>
  Each method of the two wrapper classes tests one function pointer of the callback
  table and, when it is set, calls it with fields of the record, fields of the error
  record and the scalar parameters, in this order. A vendor structure is modelled by
  the value of each of its fields, by name; the callback table by which of its
  function pointers are set (the constructors clear the table, \<open>RegisterCallbacks\<close>
  copies the caller's). \<open>fld p f d\<close> is the guarded read \<open>p ? p->f : d\<close>. The outcome
  of a delivery is the call made on the C callback, with its arguments in three groups
  (from the record, from the error record, scalars), or none.
\<close>

datatype cval = VStr string | VInt cint | VChar char | VDouble real

type_synonym cstruct = "string \<Rightarrow> cval"

type_synonym callbacks = "string \<Rightarrow> bool"

datatype shim_outcome = Invoked string "cval list" "cval list" "cval list" | Dropped

definition fld :: "cstruct option \<Rightarrow> string \<Rightarrow> cval \<Rightarrow> cval" where
  "fld p f d = (case p of Some r \<Rightarrow> r f | None \<Rightarrow> d)"

text \<open>The values the shim puts in place of a field it cannot read.\<close>

definition is_default :: "cval \<Rightarrow> bool" where
  "is_default v = (v = VStr [] \<or> v = VInt 0 \<or> v = VDouble 0 \<or> v = VChar (CHR ''0''))"


subsection \<open>\<open>TraderSpiWrapper\<close>\<close>

definition TraderSpiWrapper_OnFrontConnected ::
  "callbacks \<Rightarrow> shim_outcome" where
  "TraderSpiWrapper_OnFrontConnected callbacks =
     (if callbacks ''on_front_connected'' then
        Invoked ''on_front_connected''
          []
          []
          []
      else Dropped)"

definition TraderSpiWrapper_OnFrontDisconnected ::
  "callbacks \<Rightarrow> cint \<Rightarrow> shim_outcome" where
  "TraderSpiWrapper_OnFrontDisconnected callbacks nReason =
     (if callbacks ''on_front_disconnected'' then
        Invoked ''on_front_disconnected''
          []
          []
          [VInt nReason]
      else Dropped)"

definition TraderSpiWrapper_OnHeartBeatWarning ::
  "callbacks \<Rightarrow> cint \<Rightarrow> shim_outcome" where
  "TraderSpiWrapper_OnHeartBeatWarning callbacks nTimeLapse =
     (if callbacks ''on_heartbeat_warning'' then
        Invoked ''on_heartbeat_warning''
          []
          []
          [VInt nTimeLapse]
      else Dropped)"

definition TraderSpiWrapper_OnRspAuthenticate ::
  "callbacks \<Rightarrow> cstruct option \<Rightarrow> cstruct option \<Rightarrow> cint \<Rightarrow> bool \<Rightarrow> shim_outcome" where
  "TraderSpiWrapper_OnRspAuthenticate callbacks pRspAuthenticateField pRspInfo nRequestID bIsLast =
     (if callbacks ''on_rsp_authenticate'' then
        Invoked ''on_rsp_authenticate''
          [fld pRspAuthenticateField ''BrokerID'' (VStr []),
           fld pRspAuthenticateField ''UserID'' (VStr []),
           fld pRspAuthenticateField ''AppID'' (VStr [])]
          [fld pRspInfo ''ErrorID'' (VInt 0),
           fld pRspInfo ''ErrorMsg'' (VStr [])]
          [VInt nRequestID, VInt (if bIsLast then 1 else 0)]
      else Dropped)"

definition TraderSpiWrapper_OnRspUserLogin ::
  "callbacks \<Rightarrow> cstruct option \<Rightarrow> cstruct option \<Rightarrow> cint \<Rightarrow> bool \<Rightarrow> shim_outcome" where
  "TraderSpiWrapper_OnRspUserLogin callbacks pRspUserLogin pRspInfo nRequestID bIsLast =
     (if callbacks ''on_rsp_user_login'' then
        Invoked ''on_rsp_user_login''
          [fld pRspUserLogin ''TradingDay'' (VStr []),
           fld pRspUserLogin ''LoginTime'' (VStr []),
           fld pRspUserLogin ''BrokerID'' (VStr []),
           fld pRspUserLogin ''UserID'' (VStr []),
           fld pRspUserLogin ''FrontID'' (VInt 0),
           fld pRspUserLogin ''SessionID'' (VInt 0),
           fld pRspUserLogin ''MaxOrderRef'' (VStr [])]
          [fld pRspInfo ''ErrorID'' (VInt 0),
           fld pRspInfo ''ErrorMsg'' (VStr [])]
          [VInt nRequestID, VInt (if bIsLast then 1 else 0)]
      else Dropped)"

definition TraderSpiWrapper_OnRspUserLogout ::
  "callbacks \<Rightarrow> cstruct option \<Rightarrow> cstruct option \<Rightarrow> cint \<Rightarrow> bool \<Rightarrow> shim_outcome" where
  "TraderSpiWrapper_OnRspUserLogout callbacks pUserLogout pRspInfo nRequestID bIsLast =
     (if callbacks ''on_rsp_user_logout'' then
        Invoked ''on_rsp_user_logout''
          [fld pUserLogout ''BrokerID'' (VStr []),
           fld pUserLogout ''UserID'' (VStr [])]
          [fld pRspInfo ''ErrorID'' (VInt 0),
           fld pRspInfo ''ErrorMsg'' (VStr [])]
          [VInt nRequestID, VInt (if bIsLast then 1 else 0)]
      else Dropped)"

definition TraderSpiWrapper_OnRspUserPasswordUpdate ::
  "callbacks \<Rightarrow> cstruct option \<Rightarrow> cstruct option \<Rightarrow> cint \<Rightarrow> bool \<Rightarrow> shim_outcome" where
  "TraderSpiWrapper_OnRspUserPasswordUpdate callbacks pUserPasswordUpdate pRspInfo nRequestID bIsLast =
     (if callbacks ''on_rsp_user_password_update'' then
        Invoked ''on_rsp_user_password_update''
          [fld pUserPasswordUpdate ''BrokerID'' (VStr []),
           fld pUserPasswordUpdate ''UserID'' (VStr [])]
          [fld pRspInfo ''ErrorID'' (VInt 0),
           fld pRspInfo ''ErrorMsg'' (VStr [])]
          [VInt nRequestID, VInt (if bIsLast then 1 else 0)]
      else Dropped)"

definition TraderSpiWrapper_OnRspError ::
  "callbacks \<Rightarrow> cstruct option \<Rightarrow> cint \<Rightarrow> bool \<Rightarrow> shim_outcome" where
  "TraderSpiWrapper_OnRspError callbacks pRspInfo nRequestID bIsLast =
     (if callbacks ''on_rsp_error'' then
        Invoked ''on_rsp_error''
          []
          [fld pRspInfo ''ErrorID'' (VInt 0),
           fld pRspInfo ''ErrorMsg'' (VStr [])]
          [VInt nRequestID, VInt (if bIsLast then 1 else 0)]
      else Dropped)"

definition TraderSpiWrapper_OnRspSettlementInfoConfirm ::
  "callbacks \<Rightarrow> cstruct option \<Rightarrow> cstruct option \<Rightarrow> cint \<Rightarrow> bool \<Rightarrow> shim_outcome" where
  "TraderSpiWrapper_OnRspSettlementInfoConfirm callbacks pSettlementInfoConfirm pRspInfo nRequestID bIsLast =
     (if callbacks ''on_rsp_settlement_info_confirm'' then
        Invoked ''on_rsp_settlement_info_confirm''
          [fld pSettlementInfoConfirm ''BrokerID'' (VStr []),
           fld pSettlementInfoConfirm ''InvestorID'' (VStr []),
           fld pSettlementInfoConfirm ''ConfirmDate'' (VStr []),
           fld pSettlementInfoConfirm ''ConfirmTime'' (VStr [])]
          [fld pRspInfo ''ErrorID'' (VInt 0),
           fld pRspInfo ''ErrorMsg'' (VStr [])]
          [VInt nRequestID, VInt (if bIsLast then 1 else 0)]
      else Dropped)"

definition TraderSpiWrapper_OnRspQrySettlementInfo ::
  "callbacks \<Rightarrow> cstruct option \<Rightarrow> cstruct option \<Rightarrow> cint \<Rightarrow> bool \<Rightarrow> shim_outcome" where
  "TraderSpiWrapper_OnRspQrySettlementInfo callbacks pSettlementInfo pRspInfo nRequestID bIsLast =
     (if callbacks ''on_rsp_qry_settlement_info'' then
        Invoked ''on_rsp_qry_settlement_info''
          [fld pSettlementInfo ''BrokerID'' (VStr []),
           fld pSettlementInfo ''InvestorID'' (VStr []),
           fld pSettlementInfo ''TradingDay'' (VStr []),
           fld pSettlementInfo ''Content'' (VStr [])]
          [fld pRspInfo ''ErrorID'' (VInt 0),
           fld pRspInfo ''ErrorMsg'' (VStr [])]
          [VInt nRequestID, VInt (if bIsLast then 1 else 0)]
      else Dropped)"

definition TraderSpiWrapper_OnRspOrderInsert ::
  "callbacks \<Rightarrow> cstruct option \<Rightarrow> cstruct option \<Rightarrow> cint \<Rightarrow> bool \<Rightarrow> shim_outcome" where
  "TraderSpiWrapper_OnRspOrderInsert callbacks pInputOrder pRspInfo nRequestID bIsLast =
     (if callbacks ''on_rsp_order_insert'' then
        Invoked ''on_rsp_order_insert''
          [fld pInputOrder ''BrokerID'' (VStr []),
           fld pInputOrder ''InvestorID'' (VStr []),
           fld pInputOrder ''InstrumentID'' (VStr []),
           fld pInputOrder ''OrderRef'' (VStr []),
           fld pInputOrder ''Direction'' (VChar (CHR ''0'')),
           fld pInputOrder ''CombOffsetFlag[0]'' (VChar (CHR ''0'')),
           fld pInputOrder ''LimitPrice'' (VDouble 0),
           fld pInputOrder ''VolumeTotalOriginal'' (VInt 0)]
          [fld pRspInfo ''ErrorID'' (VInt 0),
           fld pRspInfo ''ErrorMsg'' (VStr [])]
          [VInt nRequestID, VInt (if bIsLast then 1 else 0)]
      else Dropped)"

definition TraderSpiWrapper_OnRspOrderAction ::
  "callbacks \<Rightarrow> cstruct option \<Rightarrow> cstruct option \<Rightarrow> cint \<Rightarrow> bool \<Rightarrow> shim_outcome" where
  "TraderSpiWrapper_OnRspOrderAction callbacks pInputOrderAction pRspInfo nRequestID bIsLast =
     (if callbacks ''on_rsp_order_action'' then
        Invoked ''on_rsp_order_action''
          [fld pInputOrderAction ''BrokerID'' (VStr []),
           fld pInputOrderAction ''InvestorID'' (VStr []),
           fld pInputOrderAction ''InstrumentID'' (VStr []),
           fld pInputOrderAction ''OrderRef'' (VStr []),
           fld pInputOrderAction ''FrontID'' (VInt 0),
           fld pInputOrderAction ''SessionID'' (VInt 0),
           fld pInputOrderAction ''OrderSysID'' (VStr [])]
          [fld pRspInfo ''ErrorID'' (VInt 0),
           fld pRspInfo ''ErrorMsg'' (VStr [])]
          [VInt nRequestID, VInt (if bIsLast then 1 else 0)]
      else Dropped)"

definition TraderSpiWrapper_OnRtnOrder ::
  "callbacks \<Rightarrow> cstruct option \<Rightarrow> shim_outcome" where
  "TraderSpiWrapper_OnRtnOrder callbacks pOrder =
     (if callbacks ''on_rtn_order'' then
        Invoked ''on_rtn_order''
          [fld pOrder ''BrokerID'' (VStr []),
           fld pOrder ''InvestorID'' (VStr []),
           fld pOrder ''InstrumentID'' (VStr []),
           fld pOrder ''OrderRef'' (VStr []), fld pOrder ''UserID'' (VStr []),
           fld pOrder ''Direction'' (VChar (CHR ''0'')),
           fld pOrder ''CombOffsetFlag[0]'' (VChar (CHR ''0'')),
           fld pOrder ''LimitPrice'' (VDouble 0),
           fld pOrder ''VolumeTotalOriginal'' (VInt 0),
           fld pOrder ''VolumeTraded'' (VInt 0),
           fld pOrder ''OrderStatus'' (VChar (CHR ''0'')),
           fld pOrder ''OrderSysID'' (VStr []),
           fld pOrder ''FrontID'' (VInt 0), fld pOrder ''SessionID'' (VInt 0),
           fld pOrder ''InsertDate'' (VStr []),
           fld pOrder ''InsertTime'' (VStr []),
           fld pOrder ''StatusMsg'' (VStr [])]
          []
          []
      else Dropped)"

definition TraderSpiWrapper_OnRtnTrade ::
  "callbacks \<Rightarrow> cstruct option \<Rightarrow> shim_outcome" where
  "TraderSpiWrapper_OnRtnTrade callbacks pTrade =
     (if callbacks ''on_rtn_trade'' then
        Invoked ''on_rtn_trade''
          [fld pTrade ''BrokerID'' (VStr []),
           fld pTrade ''InvestorID'' (VStr []),
           fld pTrade ''InstrumentID'' (VStr []),
           fld pTrade ''OrderRef'' (VStr []), fld pTrade ''UserID'' (VStr []),
           fld pTrade ''TradeID'' (VStr []),
           fld pTrade ''Direction'' (VChar (CHR ''0'')),
           fld pTrade ''OffsetFlag'' (VChar (CHR ''0'')),
           fld pTrade ''Price'' (VDouble 0), fld pTrade ''Volume'' (VInt 0),
           fld pTrade ''TradeDate'' (VStr []),
           fld pTrade ''TradeTime'' (VStr []),
           fld pTrade ''OrderSysID'' (VStr [])]
          []
          []
      else Dropped)"

definition TraderSpiWrapper_OnErrRtnOrderInsert ::
  "callbacks \<Rightarrow> cstruct option \<Rightarrow> cstruct option \<Rightarrow> shim_outcome" where
  "TraderSpiWrapper_OnErrRtnOrderInsert callbacks pInputOrder pRspInfo =
     (if callbacks ''on_err_rtn_order_insert'' then
        Invoked ''on_err_rtn_order_insert''
          [fld pInputOrder ''BrokerID'' (VStr []),
           fld pInputOrder ''InvestorID'' (VStr []),
           fld pInputOrder ''InstrumentID'' (VStr []),
           fld pInputOrder ''OrderRef'' (VStr []),
           fld pInputOrder ''Direction'' (VChar (CHR ''0'')),
           fld pInputOrder ''CombOffsetFlag[0]'' (VChar (CHR ''0'')),
           fld pInputOrder ''LimitPrice'' (VDouble 0),
           fld pInputOrder ''VolumeTotalOriginal'' (VInt 0)]
          [fld pRspInfo ''ErrorID'' (VInt 0),
           fld pRspInfo ''ErrorMsg'' (VStr [])]
          []
      else Dropped)"

definition TraderSpiWrapper_OnErrRtnOrderAction ::
  "callbacks \<Rightarrow> cstruct option \<Rightarrow> cstruct option \<Rightarrow> shim_outcome" where
  "TraderSpiWrapper_OnErrRtnOrderAction callbacks pOrderAction pRspInfo =
     (if callbacks ''on_err_rtn_order_action'' then
        Invoked ''on_err_rtn_order_action''
          [fld pOrderAction ''BrokerID'' (VStr []),
           fld pOrderAction ''InvestorID'' (VStr []),
           fld pOrderAction ''InstrumentID'' (VStr []),
           fld pOrderAction ''OrderSysID'' (VStr [])]
          [fld pRspInfo ''ErrorID'' (VInt 0),
           fld pRspInfo ''ErrorMsg'' (VStr [])]
          []
      else Dropped)"

definition TraderSpiWrapper_OnRspQryOrder ::
  "callbacks \<Rightarrow> cstruct option \<Rightarrow> cstruct option \<Rightarrow> cint \<Rightarrow> bool \<Rightarrow> shim_outcome" where
  "TraderSpiWrapper_OnRspQryOrder callbacks pOrder pRspInfo nRequestID bIsLast =
     (if callbacks ''on_rsp_qry_order'' then
        Invoked ''on_rsp_qry_order''
          [fld pOrder ''BrokerID'' (VStr []),
           fld pOrder ''InvestorID'' (VStr []),
           fld pOrder ''InstrumentID'' (VStr []),
           fld pOrder ''OrderRef'' (VStr []),
           fld pOrder ''Direction'' (VChar (CHR ''0'')),
           fld pOrder ''CombOffsetFlag[0]'' (VChar (CHR ''0'')),
           fld pOrder ''LimitPrice'' (VDouble 0),
           fld pOrder ''VolumeTotalOriginal'' (VInt 0),
           fld pOrder ''VolumeTraded'' (VInt 0),
           fld pOrder ''OrderStatus'' (VChar (CHR ''0'')),
           fld pOrder ''OrderSysID'' (VStr []),
           fld pOrder ''InsertDate'' (VStr []),
           fld pOrder ''InsertTime'' (VStr [])]
          [fld pRspInfo ''ErrorID'' (VInt 0),
           fld pRspInfo ''ErrorMsg'' (VStr [])]
          [VInt nRequestID, VInt (if bIsLast then 1 else 0)]
      else Dropped)"

definition TraderSpiWrapper_OnRspQryTrade ::
  "callbacks \<Rightarrow> cstruct option \<Rightarrow> cstruct option \<Rightarrow> cint \<Rightarrow> bool \<Rightarrow> shim_outcome" where
  "TraderSpiWrapper_OnRspQryTrade callbacks pTrade pRspInfo nRequestID bIsLast =
     (if callbacks ''on_rsp_qry_trade'' then
        Invoked ''on_rsp_qry_trade''
          [fld pTrade ''BrokerID'' (VStr []),
           fld pTrade ''InvestorID'' (VStr []),
           fld pTrade ''InstrumentID'' (VStr []),
           fld pTrade ''TradeID'' (VStr []),
           fld pTrade ''Direction'' (VChar (CHR ''0'')),
           fld pTrade ''OffsetFlag'' (VChar (CHR ''0'')),
           fld pTrade ''Price'' (VDouble 0), fld pTrade ''Volume'' (VInt 0),
           fld pTrade ''TradeDate'' (VStr []),
           fld pTrade ''TradeTime'' (VStr [])]
          [fld pRspInfo ''ErrorID'' (VInt 0),
           fld pRspInfo ''ErrorMsg'' (VStr [])]
          [VInt nRequestID, VInt (if bIsLast then 1 else 0)]
      else Dropped)"

definition TraderSpiWrapper_OnRspQryInvestorPosition ::
  "callbacks \<Rightarrow> cstruct option \<Rightarrow> cstruct option \<Rightarrow> cint \<Rightarrow> bool \<Rightarrow> shim_outcome" where
  "TraderSpiWrapper_OnRspQryInvestorPosition callbacks pInvestorPosition pRspInfo nRequestID bIsLast =
     (if callbacks ''on_rsp_qry_investor_position'' then
        Invoked ''on_rsp_qry_investor_position''
          [fld pInvestorPosition ''BrokerID'' (VStr []),
           fld pInvestorPosition ''InvestorID'' (VStr []),
           fld pInvestorPosition ''InstrumentID'' (VStr []),
           fld pInvestorPosition ''PosiDirection'' (VChar (CHR ''0'')),
           fld pInvestorPosition ''Position'' (VInt 0),
           fld pInvestorPosition ''YdPosition'' (VInt 0),
           fld pInvestorPosition ''PositionCost'' (VDouble 0),
           fld pInvestorPosition ''OpenCost'' (VDouble 0),
           fld pInvestorPosition ''UseMargin'' (VDouble 0),
           fld pInvestorPosition ''FrozenMargin'' (VDouble 0)]
          [fld pRspInfo ''ErrorID'' (VInt 0),
           fld pRspInfo ''ErrorMsg'' (VStr [])]
          [VInt nRequestID, VInt (if bIsLast then 1 else 0)]
      else Dropped)"

definition TraderSpiWrapper_OnRspQryTradingAccount ::
  "callbacks \<Rightarrow> cstruct option \<Rightarrow> cstruct option \<Rightarrow> cint \<Rightarrow> bool \<Rightarrow> shim_outcome" where
  "TraderSpiWrapper_OnRspQryTradingAccount callbacks pTradingAccount pRspInfo nRequestID bIsLast =
     (if callbacks ''on_rsp_qry_trading_account'' then
        Invoked ''on_rsp_qry_trading_account''
          [fld pTradingAccount ''BrokerID'' (VStr []),
           fld pTradingAccount ''AccountID'' (VStr []),
           fld pTradingAccount ''Balance'' (VDouble 0),
           fld pTradingAccount ''Available'' (VDouble 0),
           fld pTradingAccount ''FrozenCash'' (VDouble 0),
           fld pTradingAccount ''CurrMargin'' (VDouble 0),
           fld pTradingAccount ''CloseProfit'' (VDouble 0),
           fld pTradingAccount ''PositionProfit'' (VDouble 0),
           fld pTradingAccount ''Commission'' (VDouble 0),
           fld pTradingAccount ''WithdrawQuota'' (VDouble 0)]
          [fld pRspInfo ''ErrorID'' (VInt 0),
           fld pRspInfo ''ErrorMsg'' (VStr [])]
          [VInt nRequestID, VInt (if bIsLast then 1 else 0)]
      else Dropped)"

definition TraderSpiWrapper_OnRspQryInstrument ::
  "callbacks \<Rightarrow> cstruct option \<Rightarrow> cstruct option \<Rightarrow> cint \<Rightarrow> bool \<Rightarrow> shim_outcome" where
  "TraderSpiWrapper_OnRspQryInstrument callbacks pInstrument pRspInfo nRequestID bIsLast =
     (if callbacks ''on_rsp_qry_instrument'' then
        Invoked ''on_rsp_qry_instrument''
          [fld pInstrument ''InstrumentID'' (VStr []),
           fld pInstrument ''ExchangeID'' (VStr []),
           fld pInstrument ''InstrumentName'' (VStr []),
           fld pInstrument ''ProductID'' (VStr []),
           fld pInstrument ''VolumeMultiple'' (VInt 0),
           fld pInstrument ''PriceTick'' (VDouble 0),
           fld pInstrument ''LongMarginRatio'' (VDouble 0),
           fld pInstrument ''ShortMarginRatio'' (VDouble 0),
           fld pInstrument ''IsTrading'' (VInt 0)]
          [fld pRspInfo ''ErrorID'' (VInt 0),
           fld pRspInfo ''ErrorMsg'' (VStr [])]
          [VInt nRequestID, VInt (if bIsLast then 1 else 0)]
      else Dropped)"

definition TraderSpiWrapper_OnRspQryDepthMarketData ::
  "callbacks \<Rightarrow> cstruct option \<Rightarrow> cstruct option \<Rightarrow> cint \<Rightarrow> bool \<Rightarrow> shim_outcome" where
  "TraderSpiWrapper_OnRspQryDepthMarketData callbacks pDepthMarketData pRspInfo nRequestID bIsLast =
     (if callbacks ''on_rsp_qry_depth_market_data'' then
        Invoked ''on_rsp_qry_depth_market_data''
          [fld pDepthMarketData ''InstrumentID'' (VStr []),
           fld pDepthMarketData ''ExchangeID'' (VStr []),
           fld pDepthMarketData ''LastPrice'' (VDouble 0),
           fld pDepthMarketData ''PreSettlementPrice'' (VDouble 0),
           fld pDepthMarketData ''OpenPrice'' (VDouble 0),
           fld pDepthMarketData ''HighestPrice'' (VDouble 0),
           fld pDepthMarketData ''LowestPrice'' (VDouble 0),
           fld pDepthMarketData ''Volume'' (VInt 0),
           fld pDepthMarketData ''Turnover'' (VDouble 0),
           fld pDepthMarketData ''OpenInterest'' (VDouble 0),
           fld pDepthMarketData ''BidPrice1'' (VDouble 0),
           fld pDepthMarketData ''BidVolume1'' (VInt 0),
           fld pDepthMarketData ''AskPrice1'' (VDouble 0),
           fld pDepthMarketData ''AskVolume1'' (VInt 0),
           fld pDepthMarketData ''UpdateTime'' (VStr [])]
          [fld pRspInfo ''ErrorID'' (VInt 0),
           fld pRspInfo ''ErrorMsg'' (VStr [])]
          [VInt nRequestID, VInt (if bIsLast then 1 else 0)]
      else Dropped)"

definition TraderSpiWrapper_OnRspQryInstrumentMarginRate ::
  "callbacks \<Rightarrow> cstruct option \<Rightarrow> cstruct option \<Rightarrow> cint \<Rightarrow> bool \<Rightarrow> shim_outcome" where
  "TraderSpiWrapper_OnRspQryInstrumentMarginRate callbacks pInstrumentMarginRate pRspInfo nRequestID bIsLast =
     (if callbacks ''on_rsp_qry_instrument_margin_rate'' then
        Invoked ''on_rsp_qry_instrument_margin_rate''
          [fld pInstrumentMarginRate ''BrokerID'' (VStr []),
           fld pInstrumentMarginRate ''InvestorID'' (VStr []),
           fld pInstrumentMarginRate ''InstrumentID'' (VStr []),
           fld pInstrumentMarginRate ''LongMarginRatioByMoney'' (VDouble 0),
           fld pInstrumentMarginRate ''LongMarginRatioByVolume'' (VDouble 0),
           fld pInstrumentMarginRate ''ShortMarginRatioByMoney'' (VDouble 0),
           fld pInstrumentMarginRate ''ShortMarginRatioByVolume'' (VDouble 0)]
          [fld pRspInfo ''ErrorID'' (VInt 0),
           fld pRspInfo ''ErrorMsg'' (VStr [])]
          [VInt nRequestID, VInt (if bIsLast then 1 else 0)]
      else Dropped)"

definition TraderSpiWrapper_OnRspQryInstrumentCommissionRate ::
  "callbacks \<Rightarrow> cstruct option \<Rightarrow> cstruct option \<Rightarrow> cint \<Rightarrow> bool \<Rightarrow> shim_outcome" where
  "TraderSpiWrapper_OnRspQryInstrumentCommissionRate callbacks pInstrumentCommissionRate pRspInfo nRequestID bIsLast =
     (if callbacks ''on_rsp_qry_instrument_commission_rate'' then
        Invoked ''on_rsp_qry_instrument_commission_rate''
          [fld pInstrumentCommissionRate ''BrokerID'' (VStr []),
           fld pInstrumentCommissionRate ''InvestorID'' (VStr []),
           fld pInstrumentCommissionRate ''InstrumentID'' (VStr []),
           fld pInstrumentCommissionRate ''OpenRatioByMoney'' (VDouble 0),
           fld pInstrumentCommissionRate ''OpenRatioByVolume'' (VDouble 0),
           fld pInstrumentCommissionRate ''CloseRatioByMoney'' (VDouble 0),
           fld pInstrumentCommissionRate ''CloseRatioByVolume'' (VDouble 0),
           fld pInstrumentCommissionRate ''CloseTodayRatioByMoney'' (VDouble 0),
           fld pInstrumentCommissionRate ''CloseTodayRatioByVolume'' (VDouble 0)]
          [fld pRspInfo ''ErrorID'' (VInt 0),
           fld pRspInfo ''ErrorMsg'' (VStr [])]
          [VInt nRequestID, VInt (if bIsLast then 1 else 0)]
      else Dropped)"

definition TraderSpiWrapper_OnRspQryExchange ::
  "callbacks \<Rightarrow> cstruct option \<Rightarrow> cstruct option \<Rightarrow> cint \<Rightarrow> bool \<Rightarrow> shim_outcome" where
  "TraderSpiWrapper_OnRspQryExchange callbacks pExchange pRspInfo nRequestID bIsLast =
     (if callbacks ''on_rsp_qry_exchange'' then
        Invoked ''on_rsp_qry_exchange''
          [fld pExchange ''ExchangeID'' (VStr []),
           fld pExchange ''ExchangeName'' (VStr [])]
          [fld pRspInfo ''ErrorID'' (VInt 0),
           fld pRspInfo ''ErrorMsg'' (VStr [])]
          [VInt nRequestID, VInt (if bIsLast then 1 else 0)]
      else Dropped)"

definition TraderSpiWrapper_OnRspQryProduct ::
  "callbacks \<Rightarrow> cstruct option \<Rightarrow> cstruct option \<Rightarrow> cint \<Rightarrow> bool \<Rightarrow> shim_outcome" where
  "TraderSpiWrapper_OnRspQryProduct callbacks pProduct pRspInfo nRequestID bIsLast =
     (if callbacks ''on_rsp_qry_product'' then
        Invoked ''on_rsp_qry_product''
          [fld pProduct ''ProductID'' (VStr []),
           fld pProduct ''ProductName'' (VStr []),
           fld pProduct ''ExchangeID'' (VStr []),
           fld pProduct ''ProductClass'' (VInt 0),
           fld pProduct ''VolumeMultiple'' (VInt 0),
           fld pProduct ''PriceTick'' (VDouble 0)]
          [fld pRspInfo ''ErrorID'' (VInt 0),
           fld pRspInfo ''ErrorMsg'' (VStr [])]
          [VInt nRequestID, VInt (if bIsLast then 1 else 0)]
      else Dropped)"

definition TraderSpiWrapper_OnRspQryInvestorPositionDetail ::
  "callbacks \<Rightarrow> cstruct option \<Rightarrow> cstruct option \<Rightarrow> cint \<Rightarrow> bool \<Rightarrow> shim_outcome" where
  "TraderSpiWrapper_OnRspQryInvestorPositionDetail callbacks pDetail pRspInfo nRequestID bIsLast =
     (if callbacks ''on_rsp_qry_investor_position_detail'' then
        Invoked ''on_rsp_qry_investor_position_detail''
          [fld pDetail ''BrokerID'' (VStr []),
           fld pDetail ''InvestorID'' (VStr []),
           fld pDetail ''InstrumentID'' (VStr []),
           fld pDetail ''ExchangeID'' (VStr []),
           fld pDetail ''Direction'' (VChar (CHR ''0'')),
           fld pDetail ''OpenDate'' (VStr []),
           fld pDetail ''TradeID'' (VStr []), fld pDetail ''Volume'' (VInt 0),
           fld pDetail ''OpenPrice'' (VDouble 0),
           fld pDetail ''Margin'' (VDouble 0),
           fld pDetail ''CloseProfitByDate'' (VDouble 0),
           fld pDetail ''PositionProfitByDate'' (VDouble 0),
           fld pDetail ''TradingDay'' (VStr [])]
          [fld pRspInfo ''ErrorID'' (VInt 0),
           fld pRspInfo ''ErrorMsg'' (VStr [])]
          [VInt nRequestID, VInt (if bIsLast then 1 else 0)]
      else Dropped)"

definition TraderSpiWrapper_OnRspQryInvestor ::
  "callbacks \<Rightarrow> cstruct option \<Rightarrow> cstruct option \<Rightarrow> cint \<Rightarrow> bool \<Rightarrow> shim_outcome" where
  "TraderSpiWrapper_OnRspQryInvestor callbacks pInvestor pRspInfo nRequestID bIsLast =
     (if callbacks ''on_rsp_qry_investor'' then
        Invoked ''on_rsp_qry_investor''
          [fld pInvestor ''BrokerID'' (VStr []),
           fld pInvestor ''InvestorID'' (VStr []),
           fld pInvestor ''InvestorName'' (VStr []),
           fld pInvestor ''IdentifiedCardNo'' (VStr []),
           fld pInvestor ''InvestorType'' (VInt 0)]
          [fld pRspInfo ''ErrorID'' (VInt 0),
           fld pRspInfo ''ErrorMsg'' (VStr [])]
          [VInt nRequestID, VInt (if bIsLast then 1 else 0)]
      else Dropped)"

definition TraderSpiWrapper_OnRspQryTradingCode ::
  "callbacks \<Rightarrow> cstruct option \<Rightarrow> cstruct option \<Rightarrow> cint \<Rightarrow> bool \<Rightarrow> shim_outcome" where
  "TraderSpiWrapper_OnRspQryTradingCode callbacks pTradingCode pRspInfo nRequestID bIsLast =
     (if callbacks ''on_rsp_qry_trading_code'' then
        Invoked ''on_rsp_qry_trading_code''
          [fld pTradingCode ''BrokerID'' (VStr []),
           fld pTradingCode ''InvestorID'' (VStr []),
           fld pTradingCode ''ExchangeID'' (VStr []),
           fld pTradingCode ''ClientID'' (VStr []),
           fld pTradingCode ''ClientIDType'' (VInt 0)]
          [fld pRspInfo ''ErrorID'' (VInt 0),
           fld pRspInfo ''ErrorMsg'' (VStr [])]
          [VInt nRequestID, VInt (if bIsLast then 1 else 0)]
      else Dropped)"

definition TraderSpiWrapper_OnRspQryInstrumentOrderCommRate ::
  "callbacks \<Rightarrow> cstruct option \<Rightarrow> cstruct option \<Rightarrow> cint \<Rightarrow> bool \<Rightarrow> shim_outcome" where
  "TraderSpiWrapper_OnRspQryInstrumentOrderCommRate callbacks pRate pRspInfo nRequestID bIsLast =
     (if callbacks ''on_rsp_qry_instrument_order_comm_rate'' then
        Invoked ''on_rsp_qry_instrument_order_comm_rate''
          [fld pRate ''BrokerID'' (VStr []),
           fld pRate ''InvestorID'' (VStr []),
           fld pRate ''InstrumentID'' (VStr []),
           fld pRate ''OrderCommByVolume'' (VDouble 0),
           fld pRate ''OrderActionCommByVolume'' (VDouble 0),
           fld pRate ''ExchangeID'' (VStr [])]
          [fld pRspInfo ''ErrorID'' (VInt 0),
           fld pRspInfo ''ErrorMsg'' (VStr [])]
          [VInt nRequestID, VInt (if bIsLast then 1 else 0)]
      else Dropped)"

definition TraderSpiWrapper_OnRtnInstrumentStatus ::
  "callbacks \<Rightarrow> cstruct option \<Rightarrow> shim_outcome" where
  "TraderSpiWrapper_OnRtnInstrumentStatus callbacks pStatus =
     (if callbacks ''on_rtn_instrument_status'' then
        Invoked ''on_rtn_instrument_status''
          [fld pStatus ''ExchangeID'' (VStr []),
           fld pStatus ''InstrumentID'' (VStr []),
           fld pStatus ''InstrumentStatus'' (VInt 0),
           fld pStatus ''EnterTime'' (VStr []),
           fld pStatus ''EnterReason'' (VInt 0)]
          []
          []
      else Dropped)"


subsection \<open>\<open>MdSpiWrapper\<close>\<close>

definition MdSpiWrapper_OnFrontConnected ::
  "callbacks \<Rightarrow> shim_outcome" where
  "MdSpiWrapper_OnFrontConnected callbacks =
     (if callbacks ''on_front_connected'' then
        Invoked ''on_front_connected''
          []
          []
          []
      else Dropped)"

definition MdSpiWrapper_OnFrontDisconnected ::
  "callbacks \<Rightarrow> cint \<Rightarrow> shim_outcome" where
  "MdSpiWrapper_OnFrontDisconnected callbacks nReason =
     (if callbacks ''on_front_disconnected'' then
        Invoked ''on_front_disconnected''
          []
          []
          [VInt nReason]
      else Dropped)"

definition MdSpiWrapper_OnHeartBeatWarning ::
  "callbacks \<Rightarrow> cint \<Rightarrow> shim_outcome" where
  "MdSpiWrapper_OnHeartBeatWarning callbacks nTimeLapse =
     (if callbacks ''on_heartbeat_warning'' then
        Invoked ''on_heartbeat_warning''
          []
          []
          [VInt nTimeLapse]
      else Dropped)"

definition MdSpiWrapper_OnRspUserLogin ::
  "callbacks \<Rightarrow> cstruct option \<Rightarrow> cstruct option \<Rightarrow> cint \<Rightarrow> bool \<Rightarrow> shim_outcome" where
  "MdSpiWrapper_OnRspUserLogin callbacks pRspUserLogin pRspInfo nRequestID bIsLast =
     (if callbacks ''on_rsp_user_login'' then
        Invoked ''on_rsp_user_login''
          [fld pRspUserLogin ''TradingDay'' (VStr []),
           fld pRspUserLogin ''LoginTime'' (VStr []),
           fld pRspUserLogin ''BrokerID'' (VStr []),
           fld pRspUserLogin ''UserID'' (VStr [])]
          [fld pRspInfo ''ErrorID'' (VInt 0),
           fld pRspInfo ''ErrorMsg'' (VStr [])]
          [VInt nRequestID, VInt (if bIsLast then 1 else 0)]
      else Dropped)"

definition MdSpiWrapper_OnRspUserLogout ::
  "callbacks \<Rightarrow> cstruct option \<Rightarrow> cstruct option \<Rightarrow> cint \<Rightarrow> bool \<Rightarrow> shim_outcome" where
  "MdSpiWrapper_OnRspUserLogout callbacks pUserLogout pRspInfo nRequestID bIsLast =
     (if callbacks ''on_rsp_user_logout'' then
        Invoked ''on_rsp_user_logout''
          [fld pUserLogout ''BrokerID'' (VStr []),
           fld pUserLogout ''UserID'' (VStr [])]
          [fld pRspInfo ''ErrorID'' (VInt 0),
           fld pRspInfo ''ErrorMsg'' (VStr [])]
          [VInt nRequestID, VInt (if bIsLast then 1 else 0)]
      else Dropped)"

definition MdSpiWrapper_OnRspError ::
  "callbacks \<Rightarrow> cstruct option \<Rightarrow> cint \<Rightarrow> bool \<Rightarrow> shim_outcome" where
  "MdSpiWrapper_OnRspError callbacks pRspInfo nRequestID bIsLast =
     (if callbacks ''on_rsp_error'' then
        Invoked ''on_rsp_error''
          []
          [fld pRspInfo ''ErrorID'' (VInt 0),
           fld pRspInfo ''ErrorMsg'' (VStr [])]
          [VInt nRequestID, VInt (if bIsLast then 1 else 0)]
      else Dropped)"

definition MdSpiWrapper_OnRspSubMarketData ::
  "callbacks \<Rightarrow> cstruct option \<Rightarrow> cstruct option \<Rightarrow> cint \<Rightarrow> bool \<Rightarrow> shim_outcome" where
  "MdSpiWrapper_OnRspSubMarketData callbacks pSpecificInstrument pRspInfo nRequestID bIsLast =
     (if callbacks ''on_rsp_sub_market_data'' then
        Invoked ''on_rsp_sub_market_data''
          [fld pSpecificInstrument ''InstrumentID'' (VStr [])]
          [fld pRspInfo ''ErrorID'' (VInt 0),
           fld pRspInfo ''ErrorMsg'' (VStr [])]
          [VInt nRequestID, VInt (if bIsLast then 1 else 0)]
      else Dropped)"

definition MdSpiWrapper_OnRspUnSubMarketData ::
  "callbacks \<Rightarrow> cstruct option \<Rightarrow> cstruct option \<Rightarrow> cint \<Rightarrow> bool \<Rightarrow> shim_outcome" where
  "MdSpiWrapper_OnRspUnSubMarketData callbacks pSpecificInstrument pRspInfo nRequestID bIsLast =
     (if callbacks ''on_rsp_unsub_market_data'' then
        Invoked ''on_rsp_unsub_market_data''
          [fld pSpecificInstrument ''InstrumentID'' (VStr [])]
          [fld pRspInfo ''ErrorID'' (VInt 0),
           fld pRspInfo ''ErrorMsg'' (VStr [])]
          [VInt nRequestID, VInt (if bIsLast then 1 else 0)]
      else Dropped)"

definition MdSpiWrapper_OnRtnDepthMarketData ::
  "callbacks \<Rightarrow> cstruct option \<Rightarrow> shim_outcome" where
  "MdSpiWrapper_OnRtnDepthMarketData callbacks pData =
     (if callbacks ''on_rtn_depth_market_data'' then
        (case pData of
           None \<Rightarrow> Dropped
         | Some r \<Rightarrow>
             Invoked ''on_rtn_depth_market_data''
          [r ''InstrumentID'', r ''ExchangeID'', r ''LastPrice'',
           r ''PreSettlementPrice'', r ''PreClosePrice'',
           r ''PreOpenInterest'', r ''OpenPrice'', r ''HighestPrice'',
           r ''LowestPrice'', r ''Volume'', r ''Turnover'',
           r ''OpenInterest'', r ''ClosePrice'', r ''SettlementPrice'',
           r ''UpperLimitPrice'', r ''LowerLimitPrice'', r ''BidPrice1'',
           r ''BidVolume1'', r ''AskPrice1'', r ''AskVolume1'',
           r ''BidPrice2'', r ''BidVolume2'', r ''AskPrice2'',
           r ''AskVolume2'', r ''BidPrice3'', r ''BidVolume3'',
           r ''AskPrice3'', r ''AskVolume3'', r ''BidPrice4'',
           r ''BidVolume4'', r ''AskPrice4'', r ''AskVolume4'',
           r ''BidPrice5'', r ''BidVolume5'', r ''AskPrice5'',
           r ''AskVolume5'', r ''AveragePrice'', r ''UpdateTime'',
           r ''UpdateMillisec'', r ''TradingDay'', r ''ActionDay'']
          []
          [])
      else Dropped)"


subsection \<open>Delivery\<close>

text \<open>
  The transport delivers an event by calling one method of a wrapper with a record
  pointer, an error-record pointer, an integer (the reason, the time lapse or the
  request identifier) and the last-record flag; a method takes the ones its signature
  has. Each wrapper has a callback table of its own; \<open>deliver\<close> is given the table
  of the wrapper the method belongs to.
\<close>

datatype spi_method =
    TS_OnFrontConnected
  | TS_OnFrontDisconnected
  | TS_OnHeartBeatWarning
  | TS_OnRspAuthenticate
  | TS_OnRspUserLogin
  | TS_OnRspUserLogout
  | TS_OnRspUserPasswordUpdate
  | TS_OnRspError
  | TS_OnRspSettlementInfoConfirm
  | TS_OnRspQrySettlementInfo
  | TS_OnRspOrderInsert
  | TS_OnRspOrderAction
  | TS_OnRtnOrder
  | TS_OnRtnTrade
  | TS_OnErrRtnOrderInsert
  | TS_OnErrRtnOrderAction
  | TS_OnRspQryOrder
  | TS_OnRspQryTrade
  | TS_OnRspQryInvestorPosition
  | TS_OnRspQryTradingAccount
  | TS_OnRspQryInstrument
  | TS_OnRspQryDepthMarketData
  | TS_OnRspQryInstrumentMarginRate
  | TS_OnRspQryInstrumentCommissionRate
  | TS_OnRspQryExchange
  | TS_OnRspQryProduct
  | TS_OnRspQryInvestorPositionDetail
  | TS_OnRspQryInvestor
  | TS_OnRspQryTradingCode
  | TS_OnRspQryInstrumentOrderCommRate
  | TS_OnRtnInstrumentStatus
  | MS_OnFrontConnected
  | MS_OnFrontDisconnected
  | MS_OnHeartBeatWarning
  | MS_OnRspUserLogin
  | MS_OnRspUserLogout
  | MS_OnRspError
  | MS_OnRspSubMarketData
  | MS_OnRspUnSubMarketData
  | MS_OnRtnDepthMarketData

record spi_args =
  a_record :: "cstruct option"
  a_info :: "cstruct option"
  a_int :: cint
  a_last :: bool

primrec callback_of :: "spi_method \<Rightarrow> string" where
  "callback_of TS_OnFrontConnected = ''on_front_connected''"
| "callback_of TS_OnFrontDisconnected = ''on_front_disconnected''"
| "callback_of TS_OnHeartBeatWarning = ''on_heartbeat_warning''"
| "callback_of TS_OnRspAuthenticate = ''on_rsp_authenticate''"
| "callback_of TS_OnRspUserLogin = ''on_rsp_user_login''"
| "callback_of TS_OnRspUserLogout = ''on_rsp_user_logout''"
| "callback_of TS_OnRspUserPasswordUpdate = ''on_rsp_user_password_update''"
| "callback_of TS_OnRspError = ''on_rsp_error''"
| "callback_of TS_OnRspSettlementInfoConfirm = ''on_rsp_settlement_info_confirm''"
| "callback_of TS_OnRspQrySettlementInfo = ''on_rsp_qry_settlement_info''"
| "callback_of TS_OnRspOrderInsert = ''on_rsp_order_insert''"
| "callback_of TS_OnRspOrderAction = ''on_rsp_order_action''"
| "callback_of TS_OnRtnOrder = ''on_rtn_order''"
| "callback_of TS_OnRtnTrade = ''on_rtn_trade''"
| "callback_of TS_OnErrRtnOrderInsert = ''on_err_rtn_order_insert''"
| "callback_of TS_OnErrRtnOrderAction = ''on_err_rtn_order_action''"
| "callback_of TS_OnRspQryOrder = ''on_rsp_qry_order''"
| "callback_of TS_OnRspQryTrade = ''on_rsp_qry_trade''"
| "callback_of TS_OnRspQryInvestorPosition = ''on_rsp_qry_investor_position''"
| "callback_of TS_OnRspQryTradingAccount = ''on_rsp_qry_trading_account''"
| "callback_of TS_OnRspQryInstrument = ''on_rsp_qry_instrument''"
| "callback_of TS_OnRspQryDepthMarketData = ''on_rsp_qry_depth_market_data''"
| "callback_of TS_OnRspQryInstrumentMarginRate = ''on_rsp_qry_instrument_margin_rate''"
| "callback_of TS_OnRspQryInstrumentCommissionRate = ''on_rsp_qry_instrument_commission_rate''"
| "callback_of TS_OnRspQryExchange = ''on_rsp_qry_exchange''"
| "callback_of TS_OnRspQryProduct = ''on_rsp_qry_product''"
| "callback_of TS_OnRspQryInvestorPositionDetail = ''on_rsp_qry_investor_position_detail''"
| "callback_of TS_OnRspQryInvestor = ''on_rsp_qry_investor''"
| "callback_of TS_OnRspQryTradingCode = ''on_rsp_qry_trading_code''"
| "callback_of TS_OnRspQryInstrumentOrderCommRate = ''on_rsp_qry_instrument_order_comm_rate''"
| "callback_of TS_OnRtnInstrumentStatus = ''on_rtn_instrument_status''"
| "callback_of MS_OnFrontConnected = ''on_front_connected''"
| "callback_of MS_OnFrontDisconnected = ''on_front_disconnected''"
| "callback_of MS_OnHeartBeatWarning = ''on_heartbeat_warning''"
| "callback_of MS_OnRspUserLogin = ''on_rsp_user_login''"
| "callback_of MS_OnRspUserLogout = ''on_rsp_user_logout''"
| "callback_of MS_OnRspError = ''on_rsp_error''"
| "callback_of MS_OnRspSubMarketData = ''on_rsp_sub_market_data''"
| "callback_of MS_OnRspUnSubMarketData = ''on_rsp_unsub_market_data''"
| "callback_of MS_OnRtnDepthMarketData = ''on_rtn_depth_market_data''"

primrec deliver :: "callbacks \<Rightarrow> spi_method \<Rightarrow> spi_args \<Rightarrow> shim_outcome" where
  "deliver cbs TS_OnFrontConnected a = TraderSpiWrapper_OnFrontConnected cbs"
| "deliver cbs TS_OnFrontDisconnected a = TraderSpiWrapper_OnFrontDisconnected cbs (a_int a)"
| "deliver cbs TS_OnHeartBeatWarning a = TraderSpiWrapper_OnHeartBeatWarning cbs (a_int a)"
| "deliver cbs TS_OnRspAuthenticate a =
     TraderSpiWrapper_OnRspAuthenticate cbs (a_record a) (a_info a) (a_int a) (a_last a)"
| "deliver cbs TS_OnRspUserLogin a =
     TraderSpiWrapper_OnRspUserLogin cbs (a_record a) (a_info a) (a_int a) (a_last a)"
| "deliver cbs TS_OnRspUserLogout a =
     TraderSpiWrapper_OnRspUserLogout cbs (a_record a) (a_info a) (a_int a) (a_last a)"
| "deliver cbs TS_OnRspUserPasswordUpdate a =
     TraderSpiWrapper_OnRspUserPasswordUpdate cbs (a_record a) (a_info a) (a_int a) (a_last a)"
| "deliver cbs TS_OnRspError a = TraderSpiWrapper_OnRspError cbs (a_info a) (a_int a) (a_last a)"
| "deliver cbs TS_OnRspSettlementInfoConfirm a =
     TraderSpiWrapper_OnRspSettlementInfoConfirm cbs (a_record a) (a_info a) (a_int a) (a_last a)"
| "deliver cbs TS_OnRspQrySettlementInfo a =
     TraderSpiWrapper_OnRspQrySettlementInfo cbs (a_record a) (a_info a) (a_int a) (a_last a)"
| "deliver cbs TS_OnRspOrderInsert a =
     TraderSpiWrapper_OnRspOrderInsert cbs (a_record a) (a_info a) (a_int a) (a_last a)"
| "deliver cbs TS_OnRspOrderAction a =
     TraderSpiWrapper_OnRspOrderAction cbs (a_record a) (a_info a) (a_int a) (a_last a)"
| "deliver cbs TS_OnRtnOrder a = TraderSpiWrapper_OnRtnOrder cbs (a_record a)"
| "deliver cbs TS_OnRtnTrade a = TraderSpiWrapper_OnRtnTrade cbs (a_record a)"
| "deliver cbs TS_OnErrRtnOrderInsert a =
     TraderSpiWrapper_OnErrRtnOrderInsert cbs (a_record a) (a_info a)"
| "deliver cbs TS_OnErrRtnOrderAction a =
     TraderSpiWrapper_OnErrRtnOrderAction cbs (a_record a) (a_info a)"
| "deliver cbs TS_OnRspQryOrder a =
     TraderSpiWrapper_OnRspQryOrder cbs (a_record a) (a_info a) (a_int a) (a_last a)"
| "deliver cbs TS_OnRspQryTrade a =
     TraderSpiWrapper_OnRspQryTrade cbs (a_record a) (a_info a) (a_int a) (a_last a)"
| "deliver cbs TS_OnRspQryInvestorPosition a =
     TraderSpiWrapper_OnRspQryInvestorPosition cbs (a_record a) (a_info a) (a_int a) (a_last a)"
| "deliver cbs TS_OnRspQryTradingAccount a =
     TraderSpiWrapper_OnRspQryTradingAccount cbs (a_record a) (a_info a) (a_int a) (a_last a)"
| "deliver cbs TS_OnRspQryInstrument a =
     TraderSpiWrapper_OnRspQryInstrument cbs (a_record a) (a_info a) (a_int a) (a_last a)"
| "deliver cbs TS_OnRspQryDepthMarketData a =
     TraderSpiWrapper_OnRspQryDepthMarketData cbs (a_record a) (a_info a) (a_int a) (a_last a)"
| "deliver cbs TS_OnRspQryInstrumentMarginRate a =
     TraderSpiWrapper_OnRspQryInstrumentMarginRate cbs (a_record a) (a_info a) (a_int a) (a_last a)"
| "deliver cbs TS_OnRspQryInstrumentCommissionRate a =
     TraderSpiWrapper_OnRspQryInstrumentCommissionRate cbs (a_record a) (a_info a) (a_int a) (a_last a)"
| "deliver cbs TS_OnRspQryExchange a =
     TraderSpiWrapper_OnRspQryExchange cbs (a_record a) (a_info a) (a_int a) (a_last a)"
| "deliver cbs TS_OnRspQryProduct a =
     TraderSpiWrapper_OnRspQryProduct cbs (a_record a) (a_info a) (a_int a) (a_last a)"
| "deliver cbs TS_OnRspQryInvestorPositionDetail a =
     TraderSpiWrapper_OnRspQryInvestorPositionDetail cbs (a_record a) (a_info a) (a_int a) (a_last a)"
| "deliver cbs TS_OnRspQryInvestor a =
     TraderSpiWrapper_OnRspQryInvestor cbs (a_record a) (a_info a) (a_int a) (a_last a)"
| "deliver cbs TS_OnRspQryTradingCode a =
     TraderSpiWrapper_OnRspQryTradingCode cbs (a_record a) (a_info a) (a_int a) (a_last a)"
| "deliver cbs TS_OnRspQryInstrumentOrderCommRate a =
     TraderSpiWrapper_OnRspQryInstrumentOrderCommRate cbs (a_record a) (a_info a) (a_int a) (a_last a)"
| "deliver cbs TS_OnRtnInstrumentStatus a =
     TraderSpiWrapper_OnRtnInstrumentStatus cbs (a_record a)"
| "deliver cbs MS_OnFrontConnected a = MdSpiWrapper_OnFrontConnected cbs"
| "deliver cbs MS_OnFrontDisconnected a = MdSpiWrapper_OnFrontDisconnected cbs (a_int a)"
| "deliver cbs MS_OnHeartBeatWarning a = MdSpiWrapper_OnHeartBeatWarning cbs (a_int a)"
| "deliver cbs MS_OnRspUserLogin a =
     MdSpiWrapper_OnRspUserLogin cbs (a_record a) (a_info a) (a_int a) (a_last a)"
| "deliver cbs MS_OnRspUserLogout a =
     MdSpiWrapper_OnRspUserLogout cbs (a_record a) (a_info a) (a_int a) (a_last a)"
| "deliver cbs MS_OnRspError a = MdSpiWrapper_OnRspError cbs (a_info a) (a_int a) (a_last a)"
| "deliver cbs MS_OnRspSubMarketData a =
     MdSpiWrapper_OnRspSubMarketData cbs (a_record a) (a_info a) (a_int a) (a_last a)"
| "deliver cbs MS_OnRspUnSubMarketData a =
     MdSpiWrapper_OnRspUnSubMarketData cbs (a_record a) (a_info a) (a_int a) (a_last a)"
| "deliver cbs MS_OnRtnDepthMarketData a = MdSpiWrapper_OnRtnDepthMarketData cbs (a_record a)"

section \<open>Concrete inputs\<close>

text \<open>
  An API that accepts every request and one that refuses every request, and a login
  record with a given front, session and \<open>MaxOrderRef\<close>.
\<close>

definition api_accepts :: "'c \<Rightarrow> cint" where
  "api_accepts c = 0"


text \<open>A callback table with every function pointer set, and the cleared table.\<close>

definition all_registered :: callbacks where
  "all_registered name = True"

definition none_registered :: callbacks where
  "none_registered name = False"

text \<open>Sizes for the two fields of an instrument entry.\<close>

definition sizes_81_9 :: field_sizes where
  "sizes_81_9 = \<lparr> size_InstrumentID = 81, size_ExchangeID = 9 \<rparr>"

definition login_record :: "cint \<Rightarrow> cint \<Rightarrow> string \<Rightarrow> CThostFtdcRspUserLoginField" where
  "login_record f s m =
     \<lparr> TradingDay = ''20250102'', LoginTime = ''09:00:00'', FrontID = f, SessionID = s,
       MaxOrderRef = m \<rparr>"

section \<open>Facts about the C library functions\<close>

lemma digit_val: "d < 10 \<Longrightarrow> int (of_char (digit_char d)) - 48 = int d"
  by (simp add: digit_char_def)

lemma isdigit_digit_char: "d < 10 \<Longrightarrow> isdigit (digit_char d)"
  by (simp add: digit_char_def isdigit_def)

lemma atoi_digits_append:
  "list_all isdigit xs \<Longrightarrow> atoi_digits acc (xs @ ys) = atoi_digits (atoi_digits acc xs) ys"
  by (induction xs arbitrary: acc) auto

lemma dec_digits: "list_all isdigit (dec n)"
  by (induction n rule: dec.induct) (subst dec.simps, auto simp: isdigit_digit_char)

lemma atoi_digits_dec: "atoi_digits 0 (dec n) = int n"
proof (induction n rule: dec.induct)
  case (1 n)
  show ?case
  proof (cases "n < 10")
    case True
    then show ?thesis by (subst dec.simps) (simp add: isdigit_digit_char digit_val)
  next
    case False
    then have "atoi_digits 0 (dec n) =
        atoi_digits (atoi_digits 0 (dec (n div 10))) [digit_char (n mod 10)]"
      by (subst dec.simps) (simp add: atoi_digits_append dec_digits)
    also have "\<dots> = int (n div 10) * 10 + int (n mod 10)"
      using 1 False by (simp add: isdigit_digit_char digit_val)
    also have "\<dots> = int n"
      by presburger
    finally show ?thesis .
  qed
qed

lemma atoi_digits_zeros: "atoi_digits 0 (replicate k (CHR ''0'') @ s) = atoi_digits 0 s"
  by (induction k) (simp_all add: isdigit_def)

lemma atoi_digits_pad0: "atoi_digits 0 (pad0 w s) = atoi_digits 0 s"
  by (simp add: pad0_def atoi_digits_zeros)

lemma dec_nonempty: "dec n \<noteq> []"
  by (subst dec.simps) simp

lemma pad0_dec_shape: "\<exists>c cs. pad0 w (dec n) = c # cs \<and> isdigit c"
proof -
  have "pad0 w (dec n) \<noteq> []" by (simp add: pad0_def dec_nonempty)
  then obtain c cs where e: "pad0 w (dec n) = c # cs" by (cases "pad0 w (dec n)") auto
  have "list_all isdigit (pad0 w (dec n))"
    using dec_digits by (auto simp: pad0_def isdigit_def list_all_iff)
  with e show ?thesis by simp
qed

text \<open>Reading back what \<open>%012d\<close> wrote gives the number: the format loses nothing.\<close>

lemma atoi_int_sprintf: "atoi_int (sprintf_012d n) = n"
proof (cases "n < 0")
  case True
  have "\<not> isspace (CHR ''-'')" by (simp add: isspace_def)
  then show ?thesis using True
    by (simp add: atoi_int_def sprintf_012d_def atoi_digits_pad0 atoi_digits_dec)
next
  case False
  obtain c cs where e: "pad0 12 (dec (nat n)) = c # cs" and d: "isdigit c"
    using pad0_dec_shape by blast
  from d have ns: "\<not> isspace c" and nm: "c \<noteq> CHR ''-''" and np: "c \<noteq> CHR ''+''"
    by (auto simp: isdigit_def isspace_def)
  have "atoi_int (c # cs) = atoi_digits 0 (c # cs)"
    using ns nm np by (simp add: atoi_int_def)
  also have "\<dots> = n"
    using False by (simp flip: e add: atoi_digits_pad0 atoi_digits_dec)
  finally show ?thesis using False by (simp add: sprintf_012d_def e)
qed

lemma sint_succ: "sint (x :: cint) < INT_MAX \<Longrightarrow> sint (x + 1) = sint x + 1"
proof -
  assume a: "sint x < INT_MAX"
  have lo: "- (2 ^ 31) \<le> sint x" using sint_ge [of x] by simp
  have "sint (x + 1) = signed_take_bit 31 (sint x + 1)"
    by (simp add: sint_word_ariths)
  also have "\<dots> = sint x + 1"
    using a lo by (simp add: signed_take_bit_int_eq_self INT_MAX_def)
  finally show ?thesis .
qed

text \<open>Evaluating the two functions on numerals.\<close>

lemma digit_chars:
  "digit_char 0 = CHR ''0''" "digit_char 1 = CHR ''1''" "digit_char 2 = CHR ''2''"
  "digit_char 3 = CHR ''3''" "digit_char 4 = CHR ''4''" "digit_char 5 = CHR ''5''"
  "digit_char 6 = CHR ''6''" "digit_char 7 = CHR ''7''" "digit_char 8 = CHR ''8''"
  "digit_char 9 = CHR ''9''" "digit_char (Suc 0) = CHR ''1''"
  by (rule of_char_eqI [where ?'a = nat], simp add: digit_char_def)+

lemma replicate_num: "replicate (numeral k) x = x # replicate (pred_numeral k) x"
  by (simp add: numeral_eq_Suc)

lemmas sprintf_eval = sprintf_012d_def pad0_def dec.simps digit_chars replicate_num

lemmas atoi_eval = atoi_def atoi_int_def isspace_def isdigit_def

text \<open>Lists of consecutive numbers.\<close>

lemma upt_shift:
  "map f [Suc 0..<Suc (Suc n)] = f (Suc 0) # map (\<lambda>k. f (Suc k)) [Suc 0..<Suc n]"
proof -
  have "[Suc 0..<Suc (Suc n)] = Suc 0 # [Suc (Suc 0)..<Suc (Suc n)]"
    by (simp add: upt_conv_Cons)
  also have "[Suc (Suc 0)..<Suc (Suc n)] = map Suc [Suc 0..<Suc n]"
    by (simp only: map_Suc_upt)
  finally show ?thesis by (simp add: comp_def del: upt_Suc)
qed

lemma sorted_offsets: "sorted_wrt (<) (map (\<lambda>k. (a::int) + int k) [i..<j])"
  by (simp add: sorted_wrt_map)

lemma distinct_offsets: "distinct (map (\<lambda>k. (a::int) + int k) [i..<j])"
  by (simp add: distinct_map inj_on_def)

lemma distinct_of_map: "distinct (map f xs) \<Longrightarrow> distinct xs"
  by (simp add: distinct_map)

section \<open>Steps of a trading session\<close>

lemma insert_step:
  "is_insert e \<Longrightarrow>
   \<exists>req. trader_step api e st =
            Inr (st\<lparr>m_maxOrderRef := m_maxOrderRef st + 1, m_requestId := m_requestId st + 1\<rparr>,
                 [Api_ReqOrderInsert req (m_requestId st + 1)])
       \<and> io_OrderRef req = sprintf_012d (sint (m_maxOrderRef st + 1))"
  by (cases e)
     (simp_all add: ReqOrderInsert_def ReqLimitOrder_def ReqMarketOrder_def ReqFOKOrder_def
        ReqFAKOrder_def ReqStopOrder_def api_send_def Let_def)

lemmas trader_defs =
  OnFrontConnected_def ReqAuthenticate_def OnFrontDisconnected_def OnHeartBeatWarning_def
  OnRspAuthenticate_def OnRspUserLogin_def OnRspUserLogout_def
  ReqUserPasswordUpdate_def ReqTradingAccountPasswordUpdate_def ReqSettlementInfoConfirm_def
  ReqQryInstrument_def ReqQryTradingAccount_def ReqQryInvestorPosition_def
  ReqQryInstrumentMarginRate_def ReqQryInstrumentCommissionRate_def ReqQryTrade_def
  ReqQryOrder_def ReqQryBaseCurrencyAccount_def ReqQryExchangeRate_def
  ReqOrderInsert_def ReqLimitOrder_def ReqMarketOrder_def ReqFOKOrder_def ReqFAKOrder_def
  ReqStopOrder_def ReqOrderAction_def ReqOrderActionByOrderSysID_def ReqOrderModify_def
  api_send_def Let_def

lemma step_request_id:
  "trader_step api e st = Inr (st', calls) \<Longrightarrow>
   (calls = [] \<and> m_requestId st' = m_requestId st) \<or>
   (\<exists>c. calls = [c] \<and> call_request_id c = m_requestId st + 1
        \<and> m_requestId st' = m_requestId st + 1)"
  by (cases e) (auto simp: trader_defs split: if_splits option.splits)

lemma step_keeps_order_ref:
  "\<not> is_insert e \<Longrightarrow> \<not> is_login_response e \<Longrightarrow>
   \<exists>st' calls. trader_step api e st = Inr (st', calls)
      \<and> m_maxOrderRef st' = m_maxOrderRef st \<and> order_refs calls = []"
  by (cases e) (auto simp: trader_defs)

lemma snd_trader_run_Cons:
  "trader_step api e st = Inr (st', calls) \<Longrightarrow>
   snd (trader_run api (e # es) st) = calls @ snd (trader_run api es st')"
  by (simp split: prod.splits)

lemma order_refs_append: "order_refs (xs @ ys) = order_refs xs @ order_refs ys"
  by (induction xs rule: order_refs.induct) auto

lemma run_order_refs:
  "\<forall>e\<in>set evs. \<not> is_login_response e \<Longrightarrow>
   sint (m_maxOrderRef st) + int (length (filter is_insert evs)) \<le> INT_MAX \<Longrightarrow>
   order_refs (snd (trader_run api evs st)) =
     map (\<lambda>k. sprintf_012d (sint (m_maxOrderRef st) + int k))
       [1..<Suc (length (filter is_insert evs))]"
proof (induction evs arbitrary: st)
  case Nil
  then show ?case by simp
next
  case (Cons e es)
  show ?case
  proof (cases "is_insert e")
    case True
    obtain req where s: "trader_step api e st =
        Inr (st\<lparr>m_maxOrderRef := m_maxOrderRef st + 1, m_requestId := m_requestId st + 1\<rparr>,
             [Api_ReqOrderInsert req (m_requestId st + 1)])"
      and r: "io_OrderRef req = sprintf_012d (sint (m_maxOrderRef st + 1))"
      using insert_step [OF True] by blast
    let ?st' = "st\<lparr>m_maxOrderRef := m_maxOrderRef st + 1, m_requestId := m_requestId st + 1\<rparr>"
    from Cons.prems True have lt: "sint (m_maxOrderRef st) < INT_MAX" by simp
    then have su: "sint (m_maxOrderRef st + 1) = sint (m_maxOrderRef st) + 1"
      by (rule sint_succ)
    have "order_refs (snd (trader_run api es ?st')) =
        map (\<lambda>k. sprintf_012d (sint (m_maxOrderRef ?st') + int k))
          [1..<Suc (length (filter is_insert es))]"
      using Cons.prems True su by (intro Cons.IH) auto
    then show ?thesis
      using True r su
      by (simp add: snd_trader_run_Cons [OF s] upt_shift add.assoc del: upt_Suc trader_run.simps)
  next
    case False
    from Cons.prems have nl: "\<not> is_login_response e" by simp
    obtain st' calls where s: "trader_step api e st = Inr (st', calls)"
      and m: "m_maxOrderRef st' = m_maxOrderRef st" and o: "order_refs calls = []"
      using step_keeps_order_ref [OF False nl] by blast
    have "order_refs (snd (trader_run api es st')) =
        map (\<lambda>k. sprintf_012d (sint (m_maxOrderRef st') + int k))
          [1..<Suc (length (filter is_insert es))]"
      using Cons.prems False m by (intro Cons.IH) auto
    then show ?thesis
      using False m o
      by (simp add: snd_trader_run_Cons [OF s] order_refs_append del: upt_Suc trader_run.simps)
  qed
qed

lemma run_request_ids:
  "sint (m_requestId st) + int (length evs) \<le> INT_MAX \<Longrightarrow>
   request_ids (snd (trader_run api evs st)) =
     map (\<lambda>k. sint (m_requestId st) + int k)
       [1..<Suc (length (snd (trader_run api evs st)))]"
proof (induction evs arbitrary: st)
  case Nil
  then show ?case by (simp add: request_ids_def)
next
  case (Cons e es)
  show ?case
  proof (cases "trader_step api e st")
    case (Inl c)
    then show ?thesis by (simp add: request_ids_def)
  next
    case (Inr p)
    obtain st' calls where p: "p = (st', calls)" by (cases p)
    with Inr have s: "trader_step api e st = Inr (st', calls)" by simp
    from Cons.prems have lt: "sint (m_requestId st) < INT_MAX" by simp
    then have su: "sint (m_requestId st + 1) = sint (m_requestId st) + 1"
      by (rule sint_succ)
    consider (quiet) "calls = []" "m_requestId st' = m_requestId st"
      | (sent) c where "calls = [c]" "call_request_id c = m_requestId st + 1"
          "m_requestId st' = m_requestId st + 1"
      using step_request_id [OF s] by blast
    then show ?thesis
    proof cases
      case quiet
      have "request_ids (snd (trader_run api es st')) =
          map (\<lambda>k. sint (m_requestId st') + int k)
            [1..<Suc (length (snd (trader_run api es st')))]"
        using Cons.prems quiet by (intro Cons.IH) simp
      then show ?thesis
        using quiet by (simp add: snd_trader_run_Cons [OF s] del: upt_Suc trader_run.simps)
    next
      case sent
      have "request_ids (snd (trader_run api es st')) =
          map (\<lambda>k. sint (m_requestId st') + int k)
            [1..<Suc (length (snd (trader_run api es st')))]"
        using Cons.prems sent su by (intro Cons.IH) simp
      then show ?thesis
        using sent su
        by (simp add: snd_trader_run_Cons [OF s] request_ids_def upt_shift add.assoc
              del: upt_Suc trader_run.simps)
    qed
  qed
qed

lemma run_quiet:
  "\<forall>x\<in>set pre. \<not> is_insert x \<and> \<not> is_login_response x \<Longrightarrow>
   \<exists>st' calls. trader_run api pre st = (Some st', calls)
      \<and> m_maxOrderRef st' = m_maxOrderRef st \<and> order_refs calls = []"
proof (induction pre arbitrary: st)
  case Nil
  then show ?case by simp
next
  case (Cons e es)
  then have q: "\<not> is_insert e" "\<not> is_login_response e" by simp_all
  obtain st1 c1 where s: "trader_step api e st = Inr (st1, c1)"
    and m: "m_maxOrderRef st1 = m_maxOrderRef st" and o: "order_refs c1 = []"
    using step_keeps_order_ref [OF q] by blast
  obtain st2 c2 where r: "trader_run api es st1 = (Some st2, c2)"
    and m2: "m_maxOrderRef st2 = m_maxOrderRef st1" and o2: "order_refs c2 = []"
    using Cons.IH [of st1] Cons.prems by auto
  show ?case using s r m m2 o o2 by (simp add: order_refs_append)
qed

lemma run_append:
  "trader_run api xs st = (Some st', calls) \<Longrightarrow>
   snd (trader_run api (xs @ ys) st) = calls @ snd (trader_run api ys st')"
proof (induction xs arbitrary: st calls)
  case Nil
  then show ?case by simp
next
  case (Cons e es)
  from Cons.prems obtain st1 c1 c2
    where s: "trader_step api e st = Inr (st1, c1)"
      and r: "trader_run api es st1 = (Some st', c2)" and c: "calls = c1 @ c2"
    by (auto split: sum.splits prod.splits)
  have "snd (trader_run api ((e # es) @ ys) st) = c1 @ snd (trader_run api (es @ ys) st1)"
    using snd_trader_run_Cons [OF s] by simp
  with Cons.IH [OF r] c show ?case by simp
qed

section \<open>Steps of a market-data session\<close>

lemma fill_instArray_fits:
  "\<forall>i\<in>set xs. length i < size_InstrumentID sz \<Longrightarrow> 3 < size_ExchangeID sz \<Longrightarrow>
   fill_instArray sz xs =
     Inr (map (\<lambda>i. \<lparr> si_InstrumentID = i, si_ExchangeID = ''CME'' \<rparr>) xs)"
  by (induction xs) (simp_all add: strcpy_fits_def)

lemma fill_instArray_overrun:
  "\<exists>i\<in>set xs. size_InstrumentID sz \<le> length i \<Longrightarrow> fill_instArray sz xs = Inl BufferOverrun"
proof (induction xs)
  case Nil
  then show ?case by simp
next
  case (Cons a xs)
  show ?case
  proof (cases "size_InstrumentID sz \<le> length a")
    case True
    then show ?thesis by (simp add: strcpy_fits_def)
  next
    case False
    with Cons.prems have "\<exists>i\<in>set xs. size_InstrumentID sz \<le> length i" by auto
    then have "fill_instArray sz xs = Inl BufferOverrun" by (rule Cons.IH)
    then show ?thesis by simp
  qed
qed

lemma sint_length: "n < 2 ^ 31 \<Longrightarrow> sint (word_of_nat n :: cint) = int n"
proof -
  assume len: "n < 2 ^ 31"
  have "sint (word_of_nat n :: cint) = signed_take_bit 31 (int n)"
    by (simp add: signed_of_nat)
  also have "\<dots> = int n"
    using len by (simp add: signed_take_bit_int_eq_self)
  finally show ?thesis .
qed

lemmas md_defs = Md_OnFrontConnected_def Md_OnFrontDisconnected_def Md_OnRspUserLogin_def
  Md_OnRspUserLogout_def SubscribeMarketData_def Let_def

lemma md_request_ids_append: "md_request_ids (xs @ ys) = md_request_ids xs @ md_request_ids ys"
  by (induction xs rule: md_request_ids.induct) auto

lemma snd_md_run_Cons:
  "md_step sz api e st = Inr (st', calls) \<Longrightarrow>
   snd (md_run sz api (e # es) st) = calls @ snd (md_run sz api es st')"
  by (simp split: prod.splits)

lemma md_step_request_id:
  "md_step sz api e st = Inr (st', calls) \<Longrightarrow>
   (md_request_ids calls = [] \<and> md_requestId st' = md_requestId st) \<or>
   (md_request_ids calls = [sint (md_requestId st + 1)]
      \<and> md_requestId st' = md_requestId st + 1)"
  by (cases e) (auto simp: md_defs split: if_splits option.splits sum.splits)

lemma md_run_request_ids:
  "sint (md_requestId st) + int (length evs) \<le> INT_MAX \<Longrightarrow>
   md_request_ids (snd (md_run sz api evs st)) =
     map (\<lambda>k. sint (md_requestId st) + int k)
       [1..<Suc (length (md_request_ids (snd (md_run sz api evs st))))]"
proof (induction evs arbitrary: st)
  case Nil
  then show ?case by simp
next
  case (Cons e es)
  show ?case
  proof (cases "md_step sz api e st")
    case (Inl c)
    then show ?thesis by simp
  next
    case (Inr p)
    obtain st' calls where p: "p = (st', calls)" by (cases p)
    with Inr have s: "md_step sz api e st = Inr (st', calls)" by simp
    from Cons.prems have lt: "sint (md_requestId st) < INT_MAX" by simp
    then have su: "sint (md_requestId st + 1) = sint (md_requestId st) + 1"
      by (rule sint_succ)
    consider (quiet) "md_request_ids calls = []" "md_requestId st' = md_requestId st"
      | (sent) "md_request_ids calls = [sint (md_requestId st + 1)]"
          "md_requestId st' = md_requestId st + 1"
      using md_step_request_id [OF s] by blast
    then show ?thesis
    proof cases
      case quiet
      have "md_request_ids (snd (md_run sz api es st')) =
          map (\<lambda>k. sint (md_requestId st') + int k)
            [1..<Suc (length (md_request_ids (snd (md_run sz api es st'))))]"
        using Cons.prems quiet by (intro Cons.IH) simp
      then show ?thesis
        using quiet
        by (simp add: snd_md_run_Cons [OF s] md_request_ids_append del: upt_Suc md_run.simps)
    next
      case sent
      have "md_request_ids (snd (md_run sz api es st')) =
          map (\<lambda>k. sint (md_requestId st') + int k)
            [1..<Suc (length (md_request_ids (snd (md_run sz api es st'))))]"
        using Cons.prems sent su by (intro Cons.IH) simp
      then show ?thesis
        using sent su
        by (simp add: snd_md_run_Cons [OF s] md_request_ids_append upt_shift add.assoc
              del: upt_Suc md_run.simps)
    qed
  qed
qed

section \<open>Unfolding the shim\<close>

lemmas shim_defs =
  TraderSpiWrapper_OnFrontConnected_def TraderSpiWrapper_OnFrontDisconnected_def
  TraderSpiWrapper_OnHeartBeatWarning_def TraderSpiWrapper_OnRspAuthenticate_def
  TraderSpiWrapper_OnRspUserLogin_def TraderSpiWrapper_OnRspUserLogout_def
  TraderSpiWrapper_OnRspUserPasswordUpdate_def TraderSpiWrapper_OnRspError_def
  TraderSpiWrapper_OnRspSettlementInfoConfirm_def
  TraderSpiWrapper_OnRspQrySettlementInfo_def TraderSpiWrapper_OnRspOrderInsert_def
  TraderSpiWrapper_OnRspOrderAction_def TraderSpiWrapper_OnRtnOrder_def
  TraderSpiWrapper_OnRtnTrade_def TraderSpiWrapper_OnErrRtnOrderInsert_def
  TraderSpiWrapper_OnErrRtnOrderAction_def TraderSpiWrapper_OnRspQryOrder_def
  TraderSpiWrapper_OnRspQryTrade_def TraderSpiWrapper_OnRspQryInvestorPosition_def
  TraderSpiWrapper_OnRspQryTradingAccount_def TraderSpiWrapper_OnRspQryInstrument_def
  TraderSpiWrapper_OnRspQryDepthMarketData_def
  TraderSpiWrapper_OnRspQryInstrumentMarginRate_def
  TraderSpiWrapper_OnRspQryInstrumentCommissionRate_def
  TraderSpiWrapper_OnRspQryExchange_def TraderSpiWrapper_OnRspQryProduct_def
  TraderSpiWrapper_OnRspQryInvestorPositionDetail_def TraderSpiWrapper_OnRspQryInvestor_def
  TraderSpiWrapper_OnRspQryTradingCode_def
  TraderSpiWrapper_OnRspQryInstrumentOrderCommRate_def
  TraderSpiWrapper_OnRtnInstrumentStatus_def MdSpiWrapper_OnFrontConnected_def
  MdSpiWrapper_OnFrontDisconnected_def MdSpiWrapper_OnHeartBeatWarning_def
  MdSpiWrapper_OnRspUserLogin_def MdSpiWrapper_OnRspUserLogout_def
  MdSpiWrapper_OnRspError_def MdSpiWrapper_OnRspSubMarketData_def
  MdSpiWrapper_OnRspUnSubMarketData_def MdSpiWrapper_OnRtnDepthMarketData_def

section \<open>Order references within a session\<close>

text \<open>
  C1. Within one session (a history with no login response) the order references put on
  the wire are the \<open>%012d\<close> renderings of \<open>m + 1\<close>, \<open>m + 2\<close>, ... where \<open>m\<close> is
  the counter at the start, as long as the counter does not pass \<open>INT_MAX\<close>: read as
  numbers they increase strictly and no reference is issued twice, whatever else
  (cancels, modifications, queries) is called in between.
\<close>

theorem order_refs_increase_below_INT_MAX:
  assumes "\<forall>e\<in>set evs. \<not> is_login_response e"
    and "sint (m_maxOrderRef st) + int (length (filter is_insert evs)) \<le> INT_MAX"
  shows "map atoi_int (order_refs (snd (trader_run api evs st))) =
           map (\<lambda>k. sint (m_maxOrderRef st) + int k) [1..<Suc (length (filter is_insert evs))]
       \<and> sorted_wrt (<) (map atoi_int (order_refs (snd (trader_run api evs st))))
       \<and> distinct (order_refs (snd (trader_run api evs st)))"
proof -
  let ?refs = "order_refs (snd (trader_run api evs st))"
  have e: "map atoi_int ?refs =
      map (\<lambda>k. sint (m_maxOrderRef st) + int k) [1..<Suc (length (filter is_insert evs))]"
    by (simp add: run_order_refs [OF assms] atoi_int_sprintf comp_def del: upt_Suc)
  have "distinct (map atoi_int ?refs)"
    unfolding e by (rule distinct_offsets)
  then have "distinct ?refs" by (rule distinct_of_map)
  moreover have "sorted_wrt (<) (map atoi_int ?refs)"
    unfolding e by (rule sorted_offsets)
  ultimately show ?thesis using e by simp
qed

text \<open>
  At a concrete history: a limit order, a cancel of it and a stop order on a new
  session.
\<close>

theorem order_refs_increase_witness:
  "order_refs (snd (trader_run api_accepts
      [Ev_ReqLimitOrder ''ES2503'' ''CME'' THOST_FTDC_D_Buy (CHR ''0'') 5000 2,
       Ev_ReqOrderAction ''ES2503'' ''CME'' ''000000000001'' 0 0 THOST_FTDC_AF_Delete,
       Ev_ReqStopOrder ''ES2503'' ''CME'' THOST_FTDC_D_Sell (CHR ''0'') 4990 4995 2]
      (CtpTraderSpi_new CtpConfig_new))) = [''000000000001'', ''000000000002'']
   \<and> sorted_wrt (<) (map atoi_int (order_refs (snd (trader_run api_accepts
      [Ev_ReqLimitOrder ''ES2503'' ''CME'' THOST_FTDC_D_Buy (CHR ''0'') 5000 2,
       Ev_ReqOrderAction ''ES2503'' ''CME'' ''000000000001'' 0 0 THOST_FTDC_AF_Delete,
       Ev_ReqStopOrder ''ES2503'' ''CME'' THOST_FTDC_D_Sell (CHR ''0'') 4990 4995 2]
      (CtpTraderSpi_new CtpConfig_new)))))
   \<and> distinct (order_refs (snd (trader_run api_accepts
      [Ev_ReqLimitOrder ''ES2503'' ''CME'' THOST_FTDC_D_Buy (CHR ''0'') 5000 2,
       Ev_ReqOrderAction ''ES2503'' ''CME'' ''000000000001'' 0 0 THOST_FTDC_AF_Delete,
       Ev_ReqStopOrder ''ES2503'' ''CME'' THOST_FTDC_D_Sell (CHR ''0'') 4990 4995 2]
      (CtpTraderSpi_new CtpConfig_new))))"
proof -
  let ?evs = "[Ev_ReqLimitOrder ''ES2503'' ''CME'' THOST_FTDC_D_Buy (CHR ''0'') 5000 2,
       Ev_ReqOrderAction ''ES2503'' ''CME'' ''000000000001'' 0 0 THOST_FTDC_AF_Delete,
       Ev_ReqStopOrder ''ES2503'' ''CME'' THOST_FTDC_D_Sell (CHR ''0'') 4990 4995 2]"
  let ?st = "CtpTraderSpi_new CtpConfig_new"
  have h1: "\<forall>e\<in>set ?evs. \<not> is_login_response e" by simp
  have h2: "sint (m_maxOrderRef ?st) + int (length (filter is_insert ?evs)) \<le> INT_MAX"
    by (simp add: CtpTraderSpi_new_def INT_MAX_def)
  have "order_refs (snd (trader_run api_accepts ?evs ?st)) = [''000000000001'', ''000000000002'']"
    by (simp add: ReqLimitOrder_def ReqOrderInsert_def ReqStopOrder_def ReqOrderAction_def
          api_send_def Let_def CtpTraderSpi_new_def sprintf_eval)
  then show ?thesis
    using order_refs_increase_below_INT_MAX [OF h1 h2, of api_accepts] by simp
qed

text \<open>
  Where the statement without the bound fails: the counterparty reports
  \<open>MaxOrderRef = 2147483646\<close> at login; the second insert of the session wraps the
  counter, and its reference reads as a smaller number than the first.
\<close>

theorem order_ref_wraps_counterexample:
  "order_refs (snd (trader_run api_accepts
      [Ev_OnRspUserLogin (Some (login_record 1 1 ''2147483646'')) None 2 True,
       Ev_ReqLimitOrder ''ES2503'' ''CME'' THOST_FTDC_D_Buy (CHR ''0'') 5000 2,
       Ev_ReqLimitOrder ''ES2503'' ''CME'' THOST_FTDC_D_Buy (CHR ''0'') 5000 2]
      (CtpTraderSpi_new CtpConfig_new))) = [''002147483647'', ''-02147483648'']
   \<and> atoi_int ''-02147483648'' < atoi_int ''002147483647''"
  by (simp add: OnRspUserLogin_def rsp_failed_def login_record_def atoi_eval ReqLimitOrder_def
        ReqOrderInsert_def api_send_def Let_def CtpTraderSpi_new_def sprintf_eval)

section \<open>Order actions by local reference\<close>

text \<open>
  C2. \<open>ReqOrderAction\<close> compares nothing with the session: it hands the request to the
  API with the front and session identifiers the caller gave, under the next request
  identifier, and returns the API's answer; the calls it makes do not depend on
  \<open>m_frontId\<close> and \<open>m_sessionId\<close>.
\<close>

theorem order_action_sent_unchecked:
  "ReqOrderAction api instrumentID exchangeID orderRef frontId sessionId actionFlag st =
     (let c = Api_ReqOrderAction
                \<lparr> oa_BrokerID = BrokerID (m_config st), oa_InvestorID = InvestorID (m_config st),
                  oa_InstrumentID = instrumentID, oa_ExchangeID = exchangeID,
                  oa_OrderRef = orderRef, oa_OrderSysID = [],
                  oa_FrontID = frontId, oa_SessionID = sessionId, oa_ActionFlag = actionFlag,
                  oa_LimitPrice = 0, oa_VolumeChange = 0 \<rparr>
                (m_requestId st + 1)
      in (api c, st\<lparr>m_requestId := m_requestId st + 1\<rparr>, [c]))
   \<and> snd (snd (ReqOrderAction api instrumentID exchangeID orderRef frontId sessionId actionFlag
          (st\<lparr>m_frontId := f', m_sessionId := s'\<rparr>))) =
       snd (snd (ReqOrderAction api instrumentID exchangeID orderRef frontId sessionId actionFlag st))"
  by (simp add: ReqOrderAction_def api_send_def Let_def)

text \<open>
  A cancel addressed by local reference with front \<open>1\<close> and session \<open>100\<close>, on a session
  logged in with front \<open>2\<close> and session \<open>200\<close>: the request goes to the API and the call
  returns the API's \<open>0\<close>.
\<close>

theorem stale_cancel_sent_counterexample:
  "trader_run api_accepts
     [Ev_OnRspUserLogin (Some (login_record 2 200 ''0'')) None 2 True,
      Ev_ReqOrderAction ''ES2503'' ''CME'' ''000000000001'' 1 100 THOST_FTDC_AF_Delete]
     (CtpTraderSpi_new CtpConfig_new) =
   (Some \<lparr> m_config = CtpConfig_new, m_requestId = 1, m_isLogin = True,
            m_frontId = 2, m_sessionId = 200, m_maxOrderRef = 0 \<rparr>,
    [Api_ReqOrderAction
       \<lparr> oa_BrokerID = ''9999'', oa_InvestorID = ''000001'',
         oa_InstrumentID = ''ES2503'', oa_ExchangeID = ''CME'',
         oa_OrderRef = ''000000000001'', oa_OrderSysID = [],
         oa_FrontID = 1, oa_SessionID = 100, oa_ActionFlag = THOST_FTDC_AF_Delete,
         oa_LimitPrice = 0, oa_VolumeChange = 0 \<rparr> 1])
   \<and> fst (ReqOrderAction api_accepts ''ES2503'' ''CME'' ''000000000001'' 1 100 THOST_FTDC_AF_Delete
          \<lparr> m_config = CtpConfig_new, m_requestId = 0, m_isLogin = True,
            m_frontId = 2, m_sessionId = 200, m_maxOrderRef = 0 \<rparr>) = 0"
  by (simp add: OnRspUserLogin_def rsp_failed_def login_record_def atoi_eval ReqOrderAction_def
        api_send_def Let_def CtpTraderSpi_new_def CtpConfig_new_def api_accepts_def)

section \<open>Disconnection\<close>

text \<open>
  C3. \<open>OnFrontDisconnected\<close> clears the login flag and nothing else: front and session
  identifier, order-reference counter and request counter stay as they were, and no
  call is made. The same holds for the market-data session.
\<close>

theorem disconnect_clears_login_flag_only:
  "OnFrontDisconnected nReason st = (st\<lparr>m_isLogin := False\<rparr>, [])
   \<and> m_frontId (fst (OnFrontDisconnected nReason st)) = m_frontId st
   \<and> m_sessionId (fst (OnFrontDisconnected nReason st)) = m_sessionId st
   \<and> m_maxOrderRef (fst (OnFrontDisconnected nReason st)) = m_maxOrderRef st
   \<and> m_requestId (fst (OnFrontDisconnected nReason st)) = m_requestId st
   \<and> Md_OnFrontDisconnected nReason mst = (mst\<lparr>md_isLogin := False\<rparr>, [])"
  by (simp add: OnFrontDisconnected_def Md_OnFrontDisconnected_def)

text \<open>
  After a login with front \<open>7\<close> and session \<open>9\<close> and a disconnection, the members
  still hold \<open>7\<close> and \<open>9\<close>.
\<close>

theorem disconnect_keeps_session_ids_counterexample:
  "trader_run api_accepts
     [Ev_OnRspUserLogin (Some (login_record 7 9 ''0'')) None 2 True,
      Ev_OnFrontDisconnected 4097]
     (CtpTraderSpi_new CtpConfig_new) =
   (Some \<lparr> m_config = CtpConfig_new, m_requestId = 0, m_isLogin = False,
            m_frontId = 7, m_sessionId = 9, m_maxOrderRef = 0 \<rparr>, [])"
  by (simp add: OnRspUserLogin_def rsp_failed_def login_record_def atoi_eval
        OnFrontDisconnected_def CtpTraderSpi_new_def)

section \<open>Subscriptions\<close>

text \<open>
  C4. A subscribe call on a market-data session that is not logged in returns \<open>-1\<close>,
  makes no call and leaves the object as it was, so that the rest of the history runs
  as if the call had not been made; a successful login response sets the login flag
  and makes no call; a subscribe call while logged in passes the instruments given to
  the API in one call when every name is shorter than the \<open>InstrumentID\<close> field (and
  \<open>"CME"\<close> shorter than the \<open>ExchangeID\<close> field), and writes past the field when a
  name is not. The shim's subscribe and unsubscribe functions pass the names on to the
  API whenever the count is positive.
\<close>

theorem subscribe_before_login_is_dropped:
  assumes "\<not> md_isLogin st"
  shows "SubscribeMarketData sz api instruments st = Inr (- 1, st, [])
       \<and> md_run sz api (MdEv_SubscribeMarketData instruments # evs) st = md_run sz api evs st
       \<and> (\<forall>r. \<not> rsp_failed pRspInfo \<longrightarrow>
            md_step sz api (MdEv_OnRspUserLogin (Some r) pRspInfo n l) st =
              Inr (st\<lparr>md_isLogin := True\<rparr>, []))
       \<and> (length instruments < 2 ^ 31 \<longrightarrow>
            (\<forall>i\<in>set instruments. length i < size_InstrumentID sz) \<longrightarrow>
            3 < size_ExchangeID sz \<longrightarrow>
            SubscribeMarketData sz api instruments (st\<lparr>md_isLogin := True\<rparr>) =
              Inr (api (MdApi_SubscribeMarketData
                          (map (\<lambda>i. \<lparr> si_InstrumentID = i, si_ExchangeID = ''CME'' \<rparr>) instruments)
                          (word_of_nat (length instruments))),
                   st\<lparr>md_isLogin := True\<rparr>,
                   [MdApi_SubscribeMarketData
                      (map (\<lambda>i. \<lparr> si_InstrumentID = i, si_ExchangeID = ''CME'' \<rparr>) instruments)
                      (word_of_nat (length instruments))]))
       \<and> (length instruments < 2 ^ 31 \<longrightarrow>
            (\<exists>i\<in>set instruments. size_InstrumentID sz \<le> length i) \<longrightarrow>
            SubscribeMarketData sz api instruments (st\<lparr>md_isLogin := True\<rparr>) = Inl BufferOverrun)
       \<and> MdSubscribeMarketData (Some (Some a)) (Some ids) count =
            (if 0 < sint count
             then (a (Shim_SubscribeMarketData ids count), [Shim_SubscribeMarketData ids count])
             else (- 1, []))
       \<and> MdUnSubscribeMarketData (Some (Some a)) (Some ids) count =
            (if 0 < sint count
             then (a (Shim_UnSubscribeMarketData ids count), [Shim_UnSubscribeMarketData ids count])
             else (- 1, []))"
proof -
  have e: "MdSubscribeMarketData (Some (Some a)) (Some ids) count =
            (if 0 < sint count
             then (a (Shim_SubscribeMarketData ids count), [Shim_SubscribeMarketData ids count])
             else (- 1, []))"
    by (simp add: MdSubscribeMarketData_def)
  have f: "MdUnSubscribeMarketData (Some (Some a)) (Some ids) count =
            (if 0 < sint count
             then (a (Shim_UnSubscribeMarketData ids count), [Shim_UnSubscribeMarketData ids count])
             else (- 1, []))"
    by (simp add: MdUnSubscribeMarketData_def)
  have a: "SubscribeMarketData sz api instruments st = Inr (- 1, st, [])"
    using assms by (simp add: SubscribeMarketData_def)
  then have b: "md_run sz api (MdEv_SubscribeMarketData instruments # evs) st = md_run sz api evs st"
    by (simp split: prod.splits)
  have c: "md_step sz api (MdEv_OnRspUserLogin (Some r) pRspInfo n l) st =
              Inr (st\<lparr>md_isLogin := True\<rparr>, [])" if "\<not> rsp_failed pRspInfo" for r
    using that by (simp add: Md_OnRspUserLogin_def)
  have d: "SubscribeMarketData sz api instruments (st\<lparr>md_isLogin := True\<rparr>) =
              Inr (api (MdApi_SubscribeMarketData
                          (map (\<lambda>i. \<lparr> si_InstrumentID = i, si_ExchangeID = ''CME'' \<rparr>) instruments)
                          (word_of_nat (length instruments))),
                   st\<lparr>md_isLogin := True\<rparr>,
                   [MdApi_SubscribeMarketData
                      (map (\<lambda>i. \<lparr> si_InstrumentID = i, si_ExchangeID = ''CME'' \<rparr>) instruments)
                      (word_of_nat (length instruments))])"
    if len: "length instruments < 2 ^ 31"
      and fit: "\<forall>i\<in>set instruments. length i < size_InstrumentID sz"
      and ex: "3 < size_ExchangeID sz"
    using sint_length [OF len] fill_instArray_fits [OF fit ex]
    by (simp add: SubscribeMarketData_def Let_def)
  have g: "SubscribeMarketData sz api instruments (st\<lparr>md_isLogin := True\<rparr>) = Inl BufferOverrun"
    if len: "length instruments < 2 ^ 31"
      and long: "\<exists>i\<in>set instruments. size_InstrumentID sz \<le> length i"
    using sint_length [OF len] fill_instArray_overrun [OF long]
    by (simp add: SubscribeMarketData_def Let_def)
  from a b c d g e f show ?thesis by blast
qed

text \<open>
  At a concrete history on a new market-data session, and at a subscribe call on a
  logged-in one, with fields of 81 and 9 characters.
\<close>

theorem subscribe_before_login_witness:
  "md_run sizes_81_9 api_accepts
     [MdEv_SubscribeMarketData [''ES2503'', ''NQ2503''], MdEv_OnFrontDisconnected 4097]
     (CtpMdSpi_new CtpConfig_new) =
   md_run sizes_81_9 api_accepts [MdEv_OnFrontDisconnected 4097] (CtpMdSpi_new CtpConfig_new)
   \<and> SubscribeMarketData sizes_81_9 api_accepts [''ES2503'', ''NQ2503'']
       (CtpMdSpi_new CtpConfig_new) = Inr (- 1, CtpMdSpi_new CtpConfig_new, [])
   \<and> SubscribeMarketData sizes_81_9 api_accepts [''ES2503'', ''NQ2503'']
       ((CtpMdSpi_new CtpConfig_new)\<lparr>md_isLogin := True\<rparr>) =
       Inr (0, (CtpMdSpi_new CtpConfig_new)\<lparr>md_isLogin := True\<rparr>,
            [MdApi_SubscribeMarketData
               [\<lparr> si_InstrumentID = ''ES2503'', si_ExchangeID = ''CME'' \<rparr>,
                \<lparr> si_InstrumentID = ''NQ2503'', si_ExchangeID = ''CME'' \<rparr>] 2])"
proof -
  have h: "\<not> md_isLogin (CtpMdSpi_new CtpConfig_new)" by (simp add: CtpMdSpi_new_def)
  have l: "length [''ES2503'', ''NQ2503''] < 2 ^ 31" by simp
  have i: "\<forall>i\<in>set [''ES2503'', ''NQ2503'']. length i < size_InstrumentID sizes_81_9"
    by (simp add: sizes_81_9_def)
  have x: "3 < size_ExchangeID sizes_81_9" by (simp add: sizes_81_9_def)
  show ?thesis
    using subscribe_before_login_is_dropped [OF h, of sizes_81_9 api_accepts
      "[''ES2503'', ''NQ2503'']" "[MdEv_OnFrontDisconnected 4097]"] l i x
    by (simp add: api_accepts_def del: md_run.simps)
qed

text \<open>
  Two instruments subscribed before login, then connection and a successful login: the
  only call the session ever makes is the login request; no subscription reaches the
  API.
\<close>

theorem no_replay_after_login_counterexample:
  "md_run sizes_81_9 api_accepts
     [MdEv_SubscribeMarketData [''ES2503'', ''NQ2503''],
      MdEv_OnFrontConnected,
      MdEv_OnRspUserLogin (Some (login_record 1 1 ''0'')) None 1 True]
     (CtpMdSpi_new CtpConfig_new) =
   (Some \<lparr> md_config = CtpConfig_new, md_requestId = 1, md_isLogin = True \<rparr>,
    [MdApi_ReqUserLogin
       \<lparr> login_BrokerID = ''9999'', login_UserID = ''000001'', login_Password = ''123456'' \<rparr> 1])"
  by (simp add: md_defs rsp_failed_def CtpMdSpi_new_def CtpConfig_new_def)

section \<open>Order variants\<close>

text \<open>
  C5. A market order is sent with price zero and price type \<open>AnyPrice\<close>. Market,
  limit, fill-or-kill and fill-and-kill orders are \<open>ReqOrderInsert\<close> with a preset of
  parameters. A request built by \<open>ReqOrderInsert\<close> carries the price, price type, time
  condition, volume condition and contingent condition it was given and stop price
  zero; the stop
  order fills a request of its own, which is the one \<open>ReqOrderInsert\<close> builds for
  the parameters limit price, touch, good-for-day, any volume, speculation, with the
  stop price set.
\<close>

theorem market_order_and_presets:
  "(\<exists>req. snd (snd (ReqMarketOrder api i e d off v st)) =
            [Api_ReqOrderInsert req (m_requestId st + 1)]
        \<and> io_LimitPrice req = 0 \<and> io_OrderPriceType req = THOST_FTDC_OPT_AnyPrice)
   \<and> (\<exists>req. snd (snd (ReqOrderInsert api i e d off p v pt cc tc vc hf st)) =
            [Api_ReqOrderInsert req (m_requestId st + 1)]
        \<and> io_LimitPrice req = p \<and> io_OrderPriceType req = pt
        \<and> io_TimeCondition req = tc \<and> io_VolumeCondition req = vc
        \<and> io_ContingentCondition req = cc \<and> io_StopPrice req = 0)
   \<and> ReqMarketOrder api i e d off v st =
       ReqOrderInsert api i e d off 0 v THOST_FTDC_OPT_AnyPrice THOST_FTDC_CC_Immediately
         THOST_FTDC_TC_GFD THOST_FTDC_VC_AV THOST_FTDC_HF_Speculation st
   \<and> ReqLimitOrder api i e d off p v st =
       ReqOrderInsert api i e d off p v THOST_FTDC_OPT_LimitPrice THOST_FTDC_CC_Immediately
         THOST_FTDC_TC_GFD THOST_FTDC_VC_AV THOST_FTDC_HF_Speculation st
   \<and> ReqFOKOrder api i e d off p v st =
       ReqOrderInsert api i e d off p v THOST_FTDC_OPT_LimitPrice THOST_FTDC_CC_Immediately
         THOST_FTDC_TC_IOC THOST_FTDC_VC_CV THOST_FTDC_HF_Speculation st
   \<and> ReqFAKOrder api i e d off p v st =
       ReqOrderInsert api i e d off p v THOST_FTDC_OPT_LimitPrice THOST_FTDC_CC_Immediately
         THOST_FTDC_TC_IOC THOST_FTDC_VC_AV THOST_FTDC_HF_Speculation st
   \<and> (\<exists>req. snd (snd (ReqOrderInsert api i e d off p v THOST_FTDC_OPT_LimitPrice
                 THOST_FTDC_CC_Touch THOST_FTDC_TC_GFD THOST_FTDC_VC_AV
                 THOST_FTDC_HF_Speculation st)) =
              [Api_ReqOrderInsert req (m_requestId st + 1)]
        \<and> io_StopPrice req = 0
        \<and> snd (ReqStopOrder api i e d off p sp v st) =
            (st\<lparr>m_maxOrderRef := m_maxOrderRef st + 1, m_requestId := m_requestId st + 1\<rparr>,
             [Api_ReqOrderInsert (req\<lparr>io_StopPrice := sp\<rparr>) (m_requestId st + 1)]))"
  by (simp add: ReqMarketOrder_def ReqLimitOrder_def ReqFOKOrder_def ReqFAKOrder_def
        ReqOrderInsert_def ReqStopOrder_def api_send_def Let_def)

text \<open>
  The stop order's request is not the request \<open>ReqOrderInsert\<close> builds for the stop
  order's preset: \<open>ReqOrderInsert\<close> has no stop price to set.
\<close>

theorem stop_order_own_path_counterexample:
  "snd (snd (ReqStopOrder api_accepts ''ES2503'' ''CME'' THOST_FTDC_D_Sell (CHR ''0'') 4990 4995 2
       (CtpTraderSpi_new CtpConfig_new))) \<noteq>
   snd (snd (ReqOrderInsert api_accepts ''ES2503'' ''CME'' THOST_FTDC_D_Sell (CHR ''0'') 4990 2
       THOST_FTDC_OPT_LimitPrice THOST_FTDC_CC_Touch THOST_FTDC_TC_GFD THOST_FTDC_VC_AV
       THOST_FTDC_HF_Speculation (CtpTraderSpi_new CtpConfig_new)))"
  by (simp add: ReqOrderInsert_def ReqStopOrder_def api_send_def Let_def)

section \<open>Login\<close>

text \<open>
  C6. A login response without an error sets front identifier, session identifier and
  login flag, and seeds the order-reference counter with \<open>atoi\<close> of the reported
  \<open>MaxOrderRef\<close>. The first insert after it, whatever calls other than inserts and
  login responses come in between and whatever follows, carries that number plus one,
  as long as the number is below \<open>INT_MAX\<close>; and until the next login response the
  inserts carry that number plus one, plus two, ..., as long as the counter does not
  pass \<open>INT_MAX\<close>.
\<close>

theorem login_seeds_order_ref:
  assumes "\<not> rsp_failed pRspInfo"
  shows "OnRspUserLogin (Some r) pRspInfo n l st =
           Inr (st\<lparr> m_frontId := FrontID r, m_sessionId := SessionID r,
                     m_maxOrderRef := atoi (MaxOrderRef r), m_isLogin := True \<rparr>, [])
       \<and> ((\<forall>x\<in>set pre. \<not> is_insert x \<and> \<not> is_login_response x) \<longrightarrow> is_insert e \<longrightarrow>
            sint (atoi (MaxOrderRef r)) < INT_MAX \<longrightarrow>
            (\<exists>later. map atoi_int (order_refs (snd (trader_run api
                 (Ev_OnRspUserLogin (Some r) pRspInfo n l # pre @ e # rest) st))) =
               (sint (atoi (MaxOrderRef r)) + 1) # later))
       \<and> ((\<forall>x\<in>set evs. \<not> is_login_response x) \<longrightarrow>
            sint (atoi (MaxOrderRef r)) + int (length (filter is_insert evs)) \<le> INT_MAX \<longrightarrow>
            map atoi_int (order_refs (snd (trader_run api
                 (Ev_OnRspUserLogin (Some r) pRspInfo n l # evs) st))) =
              map (\<lambda>k. sint (atoi (MaxOrderRef r)) + int k)
                [1..<Suc (length (filter is_insert evs))])"
proof -
  let ?login = "Ev_OnRspUserLogin (Some r) pRspInfo n l"
  let ?st' = "st\<lparr> m_frontId := FrontID r, m_sessionId := SessionID r,
                   m_maxOrderRef := atoi (MaxOrderRef r), m_isLogin := True \<rparr>"
  have s: "OnRspUserLogin (Some r) pRspInfo n l st = Inr (?st', [])"
    using assms by (simp add: OnRspUserLogin_def)
  then have t: "trader_step api ?login st = Inr (?st', [])" by simp
  have run: "snd (trader_run api (?login # hs) st) = snd (trader_run api hs ?st')" for hs
    using snd_trader_run_Cons [OF t] by simp
  have first: "\<exists>later. map atoi_int (order_refs (snd (trader_run api
                 (?login # pre @ e # rest) st))) = (sint (atoi (MaxOrderRef r)) + 1) # later"
    if q: "\<forall>x\<in>set pre. \<not> is_insert x \<and> \<not> is_login_response x"
      and i: "is_insert e" and b: "sint (atoi (MaxOrderRef r)) < INT_MAX"
  proof -
    obtain st2 c2 where p: "trader_run api pre ?st' = (Some st2, c2)"
      and m2: "m_maxOrderRef st2 = m_maxOrderRef ?st'" and o2: "order_refs c2 = []"
      using run_quiet [OF q] by blast
    obtain req where u: "trader_step api e st2 =
        Inr (st2\<lparr>m_maxOrderRef := m_maxOrderRef st2 + 1, m_requestId := m_requestId st2 + 1\<rparr>,
             [Api_ReqOrderInsert req (m_requestId st2 + 1)])"
      and o: "io_OrderRef req = sprintf_012d (sint (m_maxOrderRef st2 + 1))"
      using insert_step [OF i] by blast
    have "order_refs (snd (trader_run api (?login # pre @ e # rest) st)) =
        io_OrderRef req # order_refs (snd (trader_run api rest
          (st2\<lparr>m_maxOrderRef := m_maxOrderRef st2 + 1, m_requestId := m_requestId st2 + 1\<rparr>)))"
      by (simp add: run run_append [OF p] snd_trader_run_Cons [OF u] order_refs_append o2
            del: trader_run.simps)
    moreover have "atoi_int (io_OrderRef req) = sint (atoi (MaxOrderRef r)) + 1"
      using o m2 sint_succ [OF b] by (simp add: atoi_int_sprintf)
    ultimately show ?thesis by simp
  qed
  have all: "map atoi_int (order_refs (snd (trader_run api (?login # evs) st))) =
              map (\<lambda>k. sint (atoi (MaxOrderRef r)) + int k)
                [1..<Suc (length (filter is_insert evs))]"
    if q: "\<forall>x\<in>set evs. \<not> is_login_response x"
      and b: "sint (atoi (MaxOrderRef r)) + int (length (filter is_insert evs)) \<le> INT_MAX"
  proof -
    have b': "sint (m_maxOrderRef ?st') + int (length (filter is_insert evs)) \<le> INT_MAX"
      using b by simp
    show ?thesis
      by (simp add: run run_order_refs [OF q b'] atoi_int_sprintf comp_def
            del: upt_Suc trader_run.simps)
  qed
  from s first all show ?thesis by blast
qed

text \<open>
  At a concrete login with \<open>MaxOrderRef = 41\<close>, followed by a settlement confirmation,
  a cancel and a market order.
\<close>

theorem login_seeds_order_ref_witness:
  "map atoi_int (order_refs (snd (trader_run api_accepts
      [Ev_OnRspUserLogin (Some (login_record 1 1 ''41'')) None 2 True,
       Ev_ReqSettlementInfoConfirm,
       Ev_ReqOrderAction ''ES2503'' ''CME'' ''000000000007'' 1 1 THOST_FTDC_AF_Delete,
       Ev_ReqMarketOrder ''ES2503'' ''CME'' THOST_FTDC_D_Buy (CHR ''0'') 2]
      (CtpTraderSpi_new CtpConfig_new)))) = [42]"
proof -
  let ?evs = "[Ev_ReqSettlementInfoConfirm,
       Ev_ReqOrderAction ''ES2503'' ''CME'' ''000000000007'' 1 1 THOST_FTDC_AF_Delete,
       Ev_ReqMarketOrder ''ES2503'' ''CME'' THOST_FTDC_D_Buy (CHR ''0'') 2]"
  have h: "\<not> rsp_failed None" by (simp add: rsp_failed_def)
  have a: "atoi (MaxOrderRef (login_record 1 1 ''41'')) = 41"
    by (simp add: login_record_def atoi_eval)
  have q: "\<forall>x\<in>set ?evs. \<not> is_login_response x" by simp
  have b: "sint (atoi (MaxOrderRef (login_record 1 1 ''41''))) +
      int (length (filter is_insert ?evs)) \<le> INT_MAX"
    by (simp add: a INT_MAX_def)
  have "map atoi_int (order_refs (snd (trader_run api_accepts
      (Ev_OnRspUserLogin (Some (login_record 1 1 ''41'')) None 2 True # ?evs)
      (CtpTraderSpi_new CtpConfig_new)))) =
      map (\<lambda>k. sint (atoi (MaxOrderRef (login_record 1 1 ''41''))) + int k)
        [1..<Suc (length (filter is_insert ?evs))]"
    using login_seeds_order_ref [OF h] q b by blast
  also have "\<dots> = [42]" by (simp add: a)
  finally show ?thesis .
qed

text \<open>
  Two login responses that differ in the trading day only leave the same object: the
  trading day is not stored. And a session that logged in with \<open>MaxOrderRef = 5\<close> and
  used reference \<open>6\<close> gets, after a reconnection whose login reports \<open>0\<close>, reference
  \<open>1\<close> for its next insert.
\<close>

theorem login_seed_counterexample:
  "OnRspUserLogin (Some ((login_record 1 1 ''5'')\<lparr>TradingDay := ''20250102''\<rparr>)) None 2 True
      (CtpTraderSpi_new CtpConfig_new) =
   OnRspUserLogin (Some ((login_record 1 1 ''5'')\<lparr>TradingDay := ''20250103''\<rparr>)) None 2 True
      (CtpTraderSpi_new CtpConfig_new)
   \<and> order_refs (snd (trader_run api_accepts
      [Ev_OnRspUserLogin (Some (login_record 1 1 ''5'')) None 2 True,
       Ev_ReqLimitOrder ''ES2503'' ''CME'' THOST_FTDC_D_Buy (CHR ''0'') 5000 2,
       Ev_OnFrontDisconnected 4097,
       Ev_OnFrontConnected,
       Ev_OnRspAuthenticate None None 2 True,
       Ev_OnRspUserLogin (Some (login_record 1 2 ''0'')) None 3 True,
       Ev_ReqLimitOrder ''ES2503'' ''CME'' THOST_FTDC_D_Buy (CHR ''0'') 5000 2]
      (CtpTraderSpi_new CtpConfig_new))) = [''000000000006'', ''000000000001'']"
  by (simp add: trader_defs rsp_failed_def login_record_def atoi_eval
        CtpTraderSpi_new_def sprintf_eval)

section \<open>Request identifiers\<close>

text \<open>
  C7. On each session object the request identifiers sent increase strictly and none
  is sent twice, across disconnections and reconnections too, as long as the counter
  does not pass \<open>INT_MAX\<close>. The trading session and the market-data session count
  separately.
\<close>

theorem request_ids_increase_per_session:
  assumes "sint (m_requestId st) + int (length evs) \<le> INT_MAX"
    and "sint (md_requestId mst) + int (length mevs) \<le> INT_MAX"
  shows "sorted_wrt (<) (request_ids (snd (trader_run api evs st)))
       \<and> distinct (request_ids (snd (trader_run api evs st)))
       \<and> sorted_wrt (<) (md_request_ids (snd (md_run sz mapi mevs mst)))
       \<and> distinct (md_request_ids (snd (md_run sz mapi mevs mst)))"
proof -
  have "sorted_wrt (<) (request_ids (snd (trader_run api evs st)))"
    by (subst run_request_ids [OF assms(1)]) (rule sorted_offsets)
  moreover have "distinct (request_ids (snd (trader_run api evs st)))"
    by (subst run_request_ids [OF assms(1)]) (rule distinct_offsets)
  moreover have "sorted_wrt (<) (md_request_ids (snd (md_run sz mapi mevs mst)))"
    by (subst md_run_request_ids [OF assms(2)]) (rule sorted_offsets)
  moreover have "distinct (md_request_ids (snd (md_run sz mapi mevs mst)))"
    by (subst md_run_request_ids [OF assms(2)]) (rule distinct_offsets)
  ultimately show ?thesis by simp
qed

text \<open>
  At concrete histories with a disconnection and a reconnection.
\<close>

theorem request_ids_witness:
  "request_ids (snd (trader_run api_accepts
      [Ev_OnFrontConnected, Ev_OnRspAuthenticate None None 1 True,
       Ev_OnFrontDisconnected 4097, Ev_OnFrontConnected]
      (CtpTraderSpi_new CtpConfig_new))) = [1, 2, 3]
   \<and> sorted_wrt (<) (request_ids (snd (trader_run api_accepts
      [Ev_OnFrontConnected, Ev_OnRspAuthenticate None None 1 True,
       Ev_OnFrontDisconnected 4097, Ev_OnFrontConnected]
      (CtpTraderSpi_new CtpConfig_new))))
   \<and> sorted_wrt (<) (md_request_ids (snd (md_run sizes_81_9 api_accepts
      [MdEv_OnFrontConnected, MdEv_OnFrontDisconnected 4097, MdEv_OnFrontConnected]
      (CtpMdSpi_new CtpConfig_new))))"
proof -
  let ?evs = "[Ev_OnFrontConnected, Ev_OnRspAuthenticate None None 1 True,
       Ev_OnFrontDisconnected 4097, Ev_OnFrontConnected]"
  let ?mevs = "[MdEv_OnFrontConnected, MdEv_OnFrontDisconnected 4097, MdEv_OnFrontConnected]"
  have h1: "sint (m_requestId (CtpTraderSpi_new CtpConfig_new)) + int (length ?evs) \<le> INT_MAX"
    by (simp add: CtpTraderSpi_new_def INT_MAX_def)
  have h2: "sint (md_requestId (CtpMdSpi_new CtpConfig_new)) + int (length ?mevs) \<le> INT_MAX"
    by (simp add: CtpMdSpi_new_def INT_MAX_def)
  have "request_ids (snd (trader_run api_accepts ?evs (CtpTraderSpi_new CtpConfig_new))) = [1, 2, 3]"
    by (simp add: request_ids_def trader_defs CtpTraderSpi_new_def)
  then show ?thesis
    using request_ids_increase_per_session [OF h1 h2, of api_accepts sizes_81_9 api_accepts] by simp
qed

text \<open>
  The first request of the trading session and the first request of the market-data
  session of one process both carry the request identifier \<open>1\<close>.
\<close>

theorem request_id_shared_counterexample:
  "request_ids (snd (trader_run api_accepts [Ev_OnFrontConnected]
      (CtpTraderSpi_new CtpConfig_new))) = [1]
   \<and> md_request_ids (snd (md_run sizes_81_9 api_accepts [MdEv_OnFrontConnected]
      (CtpMdSpi_new CtpConfig_new))) = [1]"
  by (simp add: request_ids_def trader_defs md_defs CtpTraderSpi_new_def CtpMdSpi_new_def)

section \<open>Authentication\<close>

text \<open>
  C8. Whatever the authentication response carries (a non-zero error code, a zero one,
  no error record at all), \<open>OnRspAuthenticate\<close> sends the user-login request built from
  the configuration, under the next request identifier, and does nothing else.
\<close>

theorem authenticate_failure_still_logs_in:
  "OnRspAuthenticate api pRspAuthenticateField pRspInfo nRequestID bIsLast st =
     (st\<lparr>m_requestId := m_requestId st + 1\<rparr>,
      [Api_ReqUserLogin
         \<lparr> login_BrokerID = BrokerID (m_config st),
           login_UserID = InvestorID (m_config st),
           login_Password = Password (m_config st) \<rparr>
         (m_requestId st + 1)])"
  by (simp add: OnRspAuthenticate_def api_send_def Let_def)

section \<open>Counters of an insert\<close>



section \<open>Null pointers in the shim\<close>

text \<open>
  C10. A wrapper method whose callback is not set makes no call. Every method other
  than \<open>MdSpiWrapper::OnRtnDepthMarketData\<close> whose callback is set calls it, with the
  default value (empty string, \<open>0\<close>, \<open>0.0\<close>, the character \<open>'0'\<close>) for each field of
  a record or error record that is null. \<open>MdSpiWrapper::OnRtnDepthMarketData\<close> makes no
  call for a null record, and calls its callback for a record that is not null.
\<close>

theorem shim_delivery:
  "(\<not> cbs (callback_of m) \<longrightarrow> deliver cbs m a = Dropped)
   \<and> (cbs (callback_of m) \<longrightarrow> m \<noteq> MS_OnRtnDepthMarketData \<longrightarrow>
        (\<exists>rs es ss. deliver cbs m a = Invoked (callback_of m) rs es ss
           \<and> (a_record a = None \<longrightarrow> list_all is_default rs)
           \<and> (a_info a = None \<longrightarrow> list_all is_default es)))
   \<and> (a_record a = None \<longrightarrow> deliver cbs MS_OnRtnDepthMarketData a = Dropped)
   \<and> (cbs (callback_of MS_OnRtnDepthMarketData) \<longrightarrow> a_record a \<noteq> None \<longrightarrow>
        (\<exists>rs. deliver cbs MS_OnRtnDepthMarketData a =
           Invoked (callback_of MS_OnRtnDepthMarketData) rs [] []))"
  by (cases m) (auto simp: shim_defs fld_def is_default_def)

text \<open>
  At the order-action response with both pointers null.
\<close>

theorem shim_delivery_witness:
  "deliver all_registered TS_OnRspOrderAction
     \<lparr> a_record = None, a_info = None, a_int = 7, a_last = True \<rparr> =
   Invoked ''on_rsp_order_action''
     [VStr [], VStr [], VStr [], VStr [], VInt 0, VInt 0, VStr []]
     [VInt 0, VStr []]
     [VInt 7, VInt 1]
   \<and> deliver none_registered TS_OnRspOrderAction
     \<lparr> a_record = None, a_info = None, a_int = 7, a_last = True \<rparr> = Dropped"
  using shim_delivery [of all_registered TS_OnRspOrderAction
          "\<lparr> a_record = None, a_info = None, a_int = 7, a_last = True \<rparr>"]
        shim_delivery [of none_registered TS_OnRspOrderAction
          "\<lparr> a_record = None, a_info = None, a_int = 7, a_last = True \<rparr>"]
  by (simp add: TraderSpiWrapper_OnRspOrderAction_def fld_def all_registered_def
        none_registered_def)

text \<open>
  The depth-market-data callback is set and the record pointer is null: no call is
  made.
\<close>

theorem depth_market_data_null_counterexample:
  "deliver all_registered MS_OnRtnDepthMarketData
     \<lparr> a_record = None, a_info = None, a_int = 0, a_last = False \<rparr> = Dropped"
  by (simp add: MdSpiWrapper_OnRtnDepthMarketData_def all_registered_def)


end
